theory Spec2Isabelle
  imports Complex_Main "HOL-Library.Stream"
begin

section \<open>Values and the environment of the scripts\<close>

text \<open>
  The scripts are TypeScript for Deno. A value of type \<open>string | null\<close> is a
  \<open>string option\<close>, with \<open>None\<close> for \<open>null\<close> and for \<open>undefined\<close>. The tests
  \<open>if (x)\<close>, \<open>!x\<close> and \<open>x && y\<close> of the source ask for truthiness: \<open>null\<close>,
  \<open>undefined\<close> and the empty string are falsy, every other string is truthy.
\<close>

definition truthy :: "string option \<Rightarrow> bool" where
  "truthy v = (case v of None \<Rightarrow> False | Some s \<Rightarrow> s \<noteq> [])"

text \<open>Template literals print an absent value as the word \<open>undefined\<close>.\<close>

definition template :: "string option \<Rightarrow> string" where
  "template v = (case v of None \<Rightarrow> ''undefined'' | Some s \<Rightarrow> s)"

text \<open>\<open>Array.prototype.join\<close> with a separator.\<close>

fun join :: "string \<Rightarrow> string list \<Rightarrow> string" where
  "join sep [] = []"
| "join sep [x] = x"
| "join sep (x # y # ys) = x @ sep @ join sep (y # ys)"

text \<open>\<open>String.prototype.charAt\<close>: the empty string out of range.\<close>

definition charAt :: "string \<Rightarrow> int \<Rightarrow> string" where
  "charAt s i = (if 0 \<le> i \<and> i < int (length s) then [s ! nat i] else [])"

text \<open>Reading an array at an index: \<open>undefined\<close> out of range.\<close>

definition at_index :: "'a list \<Rightarrow> int \<Rightarrow> 'a option" where
  "at_index xs i = (if 0 \<le> i \<and> i < int (length xs) then Some (xs ! nat i) else None)"

subsection \<open>JSON documents of the music provider and of the chat platform\<close>

record token_data =
  access_token :: string
  refresh_token :: "string option"
  expires_in :: int

record image =
  url :: string

record album =
  album_name :: "string option"
  album_images :: "image list option"

record artist =
  artist_name :: string

record external_urls =
  spotify :: "string option"

record item =
  item_name :: "string option"
  artists :: "artist list option"
  album :: "album option"
  item_external_urls :: "external_urls option"

record now_playing_data =
  is_playing :: bool
  item :: "item option"

record status =
  status_text :: string
  status_emoji :: string

subsection \<open>Outbound requests and their answers\<close>

text \<open>
  Every \<open>fetch\<close> of the source is one \<open>call\<close>, recorded in the order issued. The
  answers come from the environment: a request to the token endpoint either throws
  (transport failure, a body that is not JSON or not an object), is rejected
  (\<open>response.ok\<close> false) or succeeds with the token document.
\<close>

datatype call =
    TokenExchange string string string string string
  | TokenRefresh string string string
  | NowPlaying string
  | ImageGet string
  | SetPhoto string string
  | ProfileSet string string string

datatype token_reply = TokenThrew | TokenRejected | TokenOk token_data

datatype np_reply = NpThrew | NpResponse nat "now_playing_data option"

datatype slack_reply = SlackThrew | SlackBody bool

datatype log_line = Log string | Warn string | Error string

text \<open>
  Numbers are IEEE doubles in the source. The clock readings, the lifetimes and the
  expiry are integers here; their sum and product are the runtime's double operations,
  which round above \<open>2^53\<close>, and are taken from the environment as \<open>double_add\<close>
  and \<open>double_mul\<close>. Comparing two doubles is exact.
\<close>

record env =
  CLIENT_ID :: string
  CLIENT_SECRET :: string
  SLACK_TOKEN :: string
  BASE_URL :: string
  token_endpoint :: "call \<Rightarrow> token_reply"
  now_playing_endpoint :: "call \<Rightarrow> np_reply"
  image_host :: "call \<Rightarrow> string option"
  slack_api :: "call \<Rightarrow> slack_reply"
  btoa_sha256 :: "string \<Rightarrow> string"
  url_search_params :: "(string \<times> string) list \<Rightarrow> string"
  double_add :: "int \<Rightarrow> int \<Rightarrow> int"
  double_mul :: "int \<Rightarrow> int \<Rightarrow> int"

definition REDIRECT_URI :: "env \<Rightarrow> string" where
  "REDIRECT_URI e = BASE_URL e @ ''/callback''"

definition SPOTIFY_AUTH_ENDPOINT :: string where
  "SPOTIFY_AUTH_ENDPOINT = ''https://accounts.spotify.com/authorize''"

definition SPOTIFY_SCOPES :: string where
  "SPOTIFY_SCOPES = join '' '' [''user-read-currently-playing'', ''user-read-playback-state'']"

subsection \<open>The state of the process\<close>

record track =
  isPlaying :: bool
  trackName :: "string option"
  artistName :: "string option"
  albumName :: "string option"
  trackUrl :: "string option"
  albumArtUrl :: "string option"
  albumArt :: "image list option"

record TokenStorage =
  accessToken :: "string option"
  refreshToken :: "string option"
  tokenExpiry :: int
  codeVerifier :: "string option"
  lastPlayedTrack :: "track option"

text \<open>
  Besides the token storage the process reads a clock (\<open>Date.now()\<close>, in
  milliseconds) and a random source (\<open>Math.random()\<close>), both given as the stream
  of their successive readings, and it leaves two traces: the requests issued and
  the console lines written. A reading \<open>r\<close> of the random source enters the scripts
  only through \<open>Math.floor(r * n)\<close> for a length \<open>n\<close>, a double product floored by
  the runtime: the reading is given as the function from \<open>n\<close> to that index.
\<close>

record world =
  tokenStorage :: TokenStorage
  clock :: "int stream"
  random :: "(nat \<Rightarrow> int) stream"
  fetched :: "call list"
  console :: "log_line list"

definition initialTokenStorage :: TokenStorage where
  "initialTokenStorage =
     \<lparr>accessToken = None, refreshToken = None, tokenExpiry = 0,
      codeVerifier = None, lastPlayedTrack = None\<rparr>"

definition Date_now :: "world \<Rightarrow> int \<times> world" where
  "Date_now w = (shd (clock w), w\<lparr>clock := stl (clock w)\<rparr>)"

definition say :: "log_line \<Rightarrow> world \<Rightarrow> world" where
  "say l w = w\<lparr>console := console w @ [l]\<rparr>"

definition issue :: "call \<Rightarrow> world \<Rightarrow> world" where
  "issue c w = w\<lparr>fetched := fetched w @ [c]\<rparr>"

section \<open>The non-repeating selector\<close>

text \<open>
  \<open>getRandomIndex(array, lastIndex)\<close> of the helper module: a do-while loop that
  draws \<open>Math.floor(Math.random() * array.length)\<close> and draws again while the draw
  equals \<open>lastIndex\<close> and the array has more than one element. The assignment to
  the parameter \<open>lastIndex\<close> before the return is local and has no effect. The loop
  need not end, so the function is partial: \<open>None\<close> is a run that never returns.
\<close>

partial_function (option) getRandomIndex ::
  "'a list \<Rightarrow> int \<Rightarrow> (nat \<Rightarrow> int) stream \<Rightarrow> (int \<times> (nat \<Rightarrow> int) stream) option" where
  "getRandomIndex array lastIndex rnd =
     (let newIndex = shd rnd (length array) in
      if newIndex = lastIndex \<and> length array > 1
      then getRandomIndex array lastIndex (stl rnd)
      else Some (newIndex, stl rnd))"

text \<open>
  The variant of \<open>utils.ts\<close> keeps \<open>lastIndex\<close> in a module variable, which it reads
  in the loop and overwrites with the result: the second component is its new value.
\<close>

definition getRandomIndex_utils ::
  "'a list \<Rightarrow> int \<Rightarrow> (nat \<Rightarrow> int) stream \<Rightarrow> (int \<times> int \<times> (nat \<Rightarrow> int) stream) option" where
  "getRandomIndex_utils array lastIndex rnd =
     (case getRandomIndex array lastIndex rnd of
        None \<Rightarrow> None
      | Some (newIndex, rnd') \<Rightarrow> Some (newIndex, newIndex, rnd'))"

section \<open>The token store\<close>

text \<open>
  \<open>refreshSpotifyToken\<close>. The clock is read in the first test only when the access
  token is truthy (\<open>&&\<close> short-circuits), and once more when a refresh succeeded.
\<close>

definition refreshSpotifyToken :: "env \<Rightarrow> world \<Rightarrow> string option \<times> world" where
  "refreshSpotifyToken e w =
     (let (valid, w1) =
            (if truthy (accessToken (tokenStorage w))
             then (let (now, w') = Date_now w in (tokenExpiry (tokenStorage w) > now, w'))
             else (False, w))
      in if valid then (accessToken (tokenStorage w1), w1)
         else (case refreshToken (tokenStorage w1) of
             None \<Rightarrow> (None, say (Error ''No refresh token available'') w1)
           | Some rt \<Rightarrow>
               if rt = [] then (None, say (Error ''No refresh token available'') w1)
               else
                 (let c = TokenRefresh (CLIENT_ID e) (CLIENT_SECRET e) rt;
                      w2 = issue c w1
                  in case token_endpoint e c of
                       TokenThrew \<Rightarrow> (None, say (Error ''Failed to refresh token:'') w2)
                     | TokenRejected \<Rightarrow> (None, say (Error ''Error refreshing token:'') w2)
                     | TokenOk data \<Rightarrow>
                         (let (now2, w3) = Date_now w2;
                              ts = (tokenStorage w3)
                                     \<lparr>accessToken := Some (access_token data),
                                      tokenExpiry :=
                                        double_add e now2 (double_mul e (expires_in data) 1000)\<rparr>
                          in if truthy (refresh_token data)
                             then (accessToken ts,
                                   say (Log ''New refresh token received and stored'')
                                     (w3\<lparr>tokenStorage := ts\<lparr>refreshToken := refresh_token data\<rparr>\<rparr>))
                             else (accessToken ts, w3\<lparr>tokenStorage := ts\<rparr>)))))"

section \<open>The authorization flow\<close>

text \<open>
  \<open>generateRandomString\<close> and \<open>generateCodeChallenge\<close>. The digest and \<open>btoa\<close> are
  the runtime's; the environment gives their composition, and the three replacements
  are the source's.
\<close>

definition possible :: string where
  "possible = ''ABCDEFGHIJKLMNOPQRSTUVWXYZabcdefghijklmnopqrstuvwxyz0123456789''"

fun generateRandomString ::
  "nat \<Rightarrow> (nat \<Rightarrow> int) stream \<Rightarrow> string \<times> (nat \<Rightarrow> int) stream" where
  "generateRandomString 0 rnd = ([], rnd)"
| "generateRandomString (Suc n) rnd =
     (let c = charAt possible (shd rnd (length possible));
          (rest, rnd') = generateRandomString n (stl rnd)
      in (c @ rest, rnd'))"

definition generateCodeChallenge :: "env \<Rightarrow> string \<Rightarrow> string" where
  "generateCodeChallenge e verifier =
     map (\<lambda>c. if c = CHR ''+'' then CHR ''-'' else if c = CHR ''/'' then CHR ''_'' else c)
       (filter (\<lambda>c. c \<noteq> CHR ''='') (btoa_sha256 e verifier))"

definition getAuthorizationUrl :: "env \<Rightarrow> world \<Rightarrow> (string \<times> string) \<times> world" where
  "getAuthorizationUrl e w =
     (let (verifier, rnd') = generateRandomString 64 (random w);
          codeChallenge = generateCodeChallenge e verifier;
          params = url_search_params e
            [(''client_id'', CLIENT_ID e),
             (''response_type'', ''code''),
             (''redirect_uri'', REDIRECT_URI e),
             (''code_challenge_method'', ''S256''),
             (''code_challenge'', codeChallenge),
             (''scope'', SPOTIFY_SCOPES)]
      in ((SPOTIFY_AUTH_ENDPOINT @ ''?'' @ params, verifier), w\<lparr>random := rnd'\<rparr>))"

text \<open>\<open>exchangeCodeForToken\<close>: the token document, or \<open>null\<close> with a console line.\<close>

definition exchangeCodeForToken ::
  "env \<Rightarrow> string \<Rightarrow> string \<Rightarrow> world \<Rightarrow> token_data option \<times> world" where
  "exchangeCodeForToken e code verifier w =
     (let c = TokenExchange (CLIENT_ID e) (CLIENT_SECRET e) code (REDIRECT_URI e) verifier;
          w1 = issue c w
      in case token_endpoint e c of
           TokenThrew \<Rightarrow> (None, say (Error ''Failed to exchange code for token:'') w1)
         | TokenRejected \<Rightarrow> (None, say (Error ''Error exchanging code for token:'') w1)
         | TokenOk data \<Rightarrow> (Some data, w1))"

section \<open>The track poller\<close>

definition notPlaying :: track where
  "notPlaying =
     \<lparr>isPlaying = False, trackName = None, artistName = None, albumName = None,
      trackUrl = None, albumArtUrl = None, albumArt = None\<rparr>"

text \<open>
  The object built from a parsed body. \<open>item\<close>, \<open>album\<close> and \<open>external_urls\<close> are
  read with \<open>?.\<close> and may be absent. \<open>artists\<close> and \<open>images\<close> are read without it:
  where the item has no \<open>artists\<close>, or its album no \<open>images\<close>, the expression throws
  a \<open>TypeError\<close>, which is \<open>None\<close> here.
\<close>

definition trackOf :: "now_playing_data \<Rightarrow> track option" where
  "trackOf data =
     (case item data of
        None \<Rightarrow>
          Some \<lparr>isPlaying = is_playing data, trackName = None, artistName = None,
                albumName = None, trackUrl = None, albumArtUrl = None, albumArt = None\<rparr>
      | Some i \<Rightarrow>
          (case artists i of
             None \<Rightarrow> None
           | Some as \<Rightarrow>
               (case album i of
                  None \<Rightarrow>
                    Some \<lparr>isPlaying = is_playing data, trackName = item_name i,
                          artistName = Some (join '', '' (map artist_name as)),
                          albumName = None,
                          trackUrl = Option.bind (item_external_urls i) spotify,
                          albumArtUrl = None, albumArt = None\<rparr>
                | Some a \<Rightarrow>
                    (case album_images a of
                       None \<Rightarrow> None
                     | Some imgs \<Rightarrow>
                         Some \<lparr>isPlaying = is_playing data, trackName = item_name i,
                               artistName = Some (join '', '' (map artist_name as)),
                               albumName = album_name a,
                               trackUrl = Option.bind (item_external_urls i) spotify,
                               albumArtUrl = map_option url (at_index imgs 0),
                               albumArt = Some imgs\<rparr>))))"

definition getCurrentlyPlaying :: "env \<Rightarrow> world \<Rightarrow> track option \<times> world" where
  "getCurrentlyPlaying e w =
     (let (token, w1) = refreshSpotifyToken e w
      in case token of
           Some (t # ts) \<Rightarrow>
             (let w2 = say (Log ''token'') w1;
                  c = NowPlaying (t # ts);
                  w3 = issue c w2
              in case now_playing_endpoint e c of
                   NpThrew \<Rightarrow> (None, say (Error ''Failed to fetch currently playing:'') w3)
                 | NpResponse code body \<Rightarrow>
                     (let w4 = say (Log ''response'') w3
                      in if code = 204 then (Some notPlaying, w4)
                         else if 200 \<le> code \<and> code \<le> 299
                         then (case body of
                                 None \<Rightarrow> (None, say (Error ''Failed to fetch currently playing:'') w4)
                               | Some data \<Rightarrow>
                                   (let w5 = say (Log ''data'') w4
                                    in case trackOf data of
                                         None \<Rightarrow>
                                           (None, say (Error ''Failed to fetch currently playing:'') w5)
                                       | Some t \<Rightarrow> (Some t, w5)))
                         else (None, say (Error ''Error fetching currently playing:'') w4)))
         | _ \<Rightarrow> (None, w1))"

section \<open>The status publisher\<close>

text \<open>
  \<open>updateSlackStatus\<close> and \<open>updateSlackPhoto\<close> of \<open>utils/slack.ts\<close>. An argument that
  is \<open>undefined\<close> (an array read out of range by the caller) makes the body throw
  before any request; the \<open>catch\<close> turns every failure into \<open>false\<close>.
\<close>

definition updateSlackStatus :: "env \<Rightarrow> status option \<Rightarrow> string \<Rightarrow> world \<Rightarrow> bool \<times> world" where
  "updateSlackStatus e st token w =
     (case st of
        None \<Rightarrow> (False, say (Error ''Error updating status:'') w)
      | Some s \<Rightarrow>
          (let c = ProfileSet token (status_text s) (status_emoji s);
               w1 = issue c w
           in case slack_api e c of
                SlackBody True \<Rightarrow>
                  (True, say (Log (''Successfully updated status to: '' @ status_text s @ '' ''
                                     @ status_emoji s)) w1)
              | _ \<Rightarrow> (False, say (Error ''Error updating status:'') w1)))"

definition updateSlackPhoto :: "env \<Rightarrow> string option \<Rightarrow> string \<Rightarrow> world \<Rightarrow> bool \<times> world" where
  "updateSlackPhoto e img token w =
     (case img of
        None \<Rightarrow> (False, say (Error ''Error updating profile picture:'') w)
      | Some i \<Rightarrow>
          (let c1 = ImageGet i;
               w1 = issue c1 w
           in case image_host e c1 of
                None \<Rightarrow> (False, say (Error ''Error updating profile picture:'') w1)
              | Some imageBlob \<Rightarrow>
                  (let c2 = SetPhoto token imageBlob;
                       w2 = issue c2 w1
                   in case slack_api e c2 of
                        SlackBody True \<Rightarrow>
                          (True, say (Log (''Successfully updated profile picture to: '' @ i)) w2)
                      | _ \<Rightarrow> (False, say (Error ''Error updating profile picture:'') w2))))"

text \<open>\<open>updateStatus\<close> of the music script: the status line for a track, or the empty one.\<close>

definition updateStatus :: "env \<Rightarrow> track \<Rightarrow> world \<Rightarrow> bool \<times> world" where
  "updateStatus e trackInfo w =
     (if SLACK_TOKEN e = [] then (False, say (Error ''No Slack token available'') w)
      else
        (let s = (if isPlaying trackInfo \<and> truthy (trackName trackInfo)
                  then \<lparr>status_text = ''Playing: '' @ template (trackName trackInfo) @ '' by ''
                                        @ template (artistName trackInfo),
                        status_emoji = '':cat-arm-dance:''\<rparr>
                  else \<lparr>status_text = [], status_emoji = []\<rparr>)
         in updateSlackStatus e (Some s) (SLACK_TOKEN e) w))"

section \<open>The HTTP entry point\<close>

datatype req_json = JsonThrew | JsonBody "string option"

record request =
  req_method :: string
  pathname :: string
  code_param :: "string option"
  json_body :: req_json

datatype reply =
    NoBody
  | AuthUrl string string
  | Success string
  | Failure string
  | Tracked track bool bool

record response =
  http_status :: nat
  body :: reply

text \<open>\<open>url.pathname.split("/").pop()\<close>: what follows the last slash.\<close>

definition last_segment :: "string \<Rightarrow> string" where
  "last_segment p = rev (takeWhile (\<lambda>c. c \<noteq> CHR ''/'') (rev p))"

text \<open>
  The routes of \<open>handler\<close>, each the body of one \<open>if\<close> of the source. The CORS headers
  of the responses are constants and are left out; a JSON body is its \<open>success\<close> flag
  (\<open>Failure\<close> is \<open>success: false\<close>) with its message.
\<close>

definition handler_auth :: "env \<Rightarrow> world \<Rightarrow> response \<times> world" where
  "handler_auth e w =
     (let ((authUrl, verifier), w1) = getAuthorizationUrl e w
      in (\<lparr>http_status = 200,
           body = AuthUrl authUrl ''Please visit this URL to authorize the application''\<rparr>,
          w1\<lparr>tokenStorage := (tokenStorage w1)\<lparr>codeVerifier := Some verifier\<rparr>\<rparr>))"

definition handler_callback :: "env \<Rightarrow> request \<Rightarrow> world \<Rightarrow> response \<times> world" where
  "handler_callback e req w =
     (case code_param req of
        Some (c # cs) \<Rightarrow>
          (case codeVerifier (tokenStorage w) of
             Some (v # vs) \<Rightarrow>
               (let (tokenData, w1) = exchangeCodeForToken e (c # cs) (v # vs) w
                in case tokenData of
                     None \<Rightarrow>
                       (\<lparr>http_status = 500,
                         body = Failure ''Failed to exchange authorization code for tokens''\<rparr>, w1)
                   | Some td \<Rightarrow>
                       (let (now, w2) = Date_now w1
                        in (\<lparr>http_status = 200,
                             body = Success ''Authentication successful! You can now close this window.''\<rparr>,
                            w2\<lparr>tokenStorage := (tokenStorage w2)
                                 \<lparr>accessToken := Some (access_token td),
                                  refreshToken := refresh_token td,
                                  tokenExpiry := double_add e now (double_mul e (expires_in td) 1000),
                                  codeVerifier := None\<rparr>\<rparr>)))
           | _ \<Rightarrow>
               (\<lparr>http_status = 400,
                 body = Failure ''No code verifier found. Please restart the authentication flow.''\<rparr>,
                w))
      | _ \<Rightarrow> (\<lparr>http_status = 400, body = Failure ''No authorization code provided''\<rparr>, w))"

definition handler_set_token :: "env \<Rightarrow> request \<Rightarrow> world \<Rightarrow> response \<times> world" where
  "handler_set_token e req w =
     (case json_body req of
        JsonThrew \<Rightarrow> (\<lparr>http_status = 400, body = Failure ''Invalid JSON body''\<rparr>, w)
      | JsonBody rt \<Rightarrow>
          if truthy rt
          then (let w1 = w\<lparr>tokenStorage := (tokenStorage w)\<lparr>refreshToken := rt\<rparr>\<rparr>;
                    (token, w2) = refreshSpotifyToken e w1
                in if truthy token
                   then (\<lparr>http_status = 200,
                          body = Success ''Refresh token set and validated successfully''\<rparr>, w2)
                   else (\<lparr>http_status = 400,
                          body = Failure ''Refresh token was set but could not be validated''\<rparr>, w2))
          else (\<lparr>http_status = 400, body = Failure ''No refresh token provided''\<rparr>, w))"

definition handler_default :: "env \<Rightarrow> world \<Rightarrow> response \<times> world" where
  "handler_default e w =
     (let w0 = say (Log ''Spotify tracker function called'') w;
          (trackInfo, w1) = getCurrentlyPlaying e w0
      in case trackInfo of
           Some ti \<Rightarrow>
             (let (slackStatusResult, w2) = updateStatus e ti w1
              in if isPlaying ti \<and> truthy (albumArtUrl ti)
                 then (let (slackPhotoResult, w3) =
                             updateSlackPhoto e (albumArtUrl ti) (SLACK_TOKEN e) w2
                       in (\<lparr>http_status = 200,
                            body = Tracked ti slackStatusResult slackPhotoResult\<rparr>,
                           w3\<lparr>tokenStorage := (tokenStorage w3)\<lparr>lastPlayedTrack := Some ti\<rparr>\<rparr>))
                 else (\<lparr>http_status = 200, body = Tracked ti slackStatusResult False\<rparr>, w2))
         | None \<Rightarrow>
             (let (slackStatusResult, w2) = updateStatus e notPlaying w1
              in (\<lparr>http_status = 200, body = Tracked notPlaying slackStatusResult False\<rparr>, w2)))"

definition handler :: "env \<Rightarrow> request \<Rightarrow> world \<Rightarrow> response \<times> world" where
  "handler e req w =
     (if req_method req = ''OPTIONS'' then (\<lparr>http_status = 200, body = NoBody\<rparr>, w)
      else (let path = last_segment (pathname req)
            in if path = ''auth'' then handler_auth e w
               else if path = ''callback'' then handler_callback e req w
               else if path = ''set-token'' \<and> req_method req = ''POST''
               then handler_set_token e req w
               else handler_default e w))"

section \<open>The schedulers\<close>

text \<open>\<open>updateSpotifyStatus\<close>, run every 15 seconds by \<open>setInterval\<close>.\<close>

definition updateSpotifyStatus :: "env \<Rightarrow> world \<Rightarrow> world" where
  "updateSpotifyStatus e w =
     (if \<not> truthy (refreshToken (tokenStorage w))
      then say (Log ''Not authenticated. Please authenticate first.'') w
      else
        (let (trackInfo, w1) = getCurrentlyPlaying e w
         in case trackInfo of
              None \<Rightarrow> say (Log ''Error getting track info or not authenticated properly.'') w1
            | Some ti \<Rightarrow>
                if \<not> isPlaying ti then say (Log ''No track currently playing.'') w1
                else
                  (let (slackStatusResult, w2) = updateStatus e ti w1;
                       w3 = say (Log (''Slack status update: ''
                                      @ (if slackStatusResult then ''success'' else ''failed''))) w2;
                       w6 = (if truthy (albumArtUrl ti)
                             then (let (slackPhotoResult, w4) =
                                         updateSlackPhoto e (albumArtUrl ti) (SLACK_TOKEN e) w3;
                                       w5 = say (Log (''Slack photo update: ''
                                                  @ (if slackPhotoResult then ''success'' else ''failed''))) w4
                                   in w5\<lparr>tokenStorage := (tokenStorage w5)\<lparr>lastPlayedTrack := Some ti\<rparr>\<rparr>)
                             else w3)
                   in say (Log (''Updated with: '' @ template (trackName ti) @ '' by ''
                                @ template (artistName ti))) w6)))"

text \<open>
  \<open>cycleProfile\<close> of the rotation script, over its image list and status list. The
  two updates are started together and both settle (neither can reject); the model
  runs the photo update first. \<open>lastImageIndex\<close> is read and never assigned.
\<close>

record rotation =
  currentStatusIndex :: nat
  lastImageIndex :: int

definition initialRotation :: rotation where
  "initialRotation = \<lparr>currentStatusIndex = 0, lastImageIndex = - 1\<rparr>"

definition cycleProfile ::
  "env \<Rightarrow> string list \<Rightarrow> status list \<Rightarrow> rotation \<Rightarrow> world \<Rightarrow> (rotation \<times> world) option" where
  "cycleProfile e images statuses r w =
     (if images = [] \<or> statuses = []
      then Some (r, say (Warn ''No images or statuses available for cycling.'') w)
      else (case getRandomIndex images (lastImageIndex r) (random w) of
              None \<Rightarrow> None
            | Some (currentImageIndex, rnd') \<Rightarrow>
                (let w1 = w\<lparr>random := rnd'\<rparr>;
                     imageUrl = at_index images currentImageIndex;
                     (photoResult, w2) = updateSlackPhoto e imageUrl (SLACK_TOKEN e) w1;
                     (statusResult, w3) =
                       updateSlackStatus e (at_index statuses (int (currentStatusIndex r)))
                         (SLACK_TOKEN e) w2
                 in Some (r\<lparr>currentStatusIndex := (currentStatusIndex r + 1) mod length statuses\<rparr>,
                          w3))))"

text \<open>The rotation states the timer can reach from the initial one.\<close>

inductive reachable :: "string list \<Rightarrow> status list \<Rightarrow> rotation \<Rightarrow> bool"
  for images :: "string list" and statuses :: "status list" where
  start: "reachable images statuses initialRotation"
| cycle: "reachable images statuses r \<Longrightarrow> cycleProfile e images statuses r w = Some (r', w')
          \<Longrightarrow> reachable images statuses r'"

section \<open>Conditions of the statements\<close>

text \<open>
  A reading of the random source is in \<open>[0, 1)\<close>: for every positive length, the
  index it gives is in \<open>[0, length)\<close>.
\<close>

definition unit_draw :: "(nat \<Rightarrow> int) \<Rightarrow> bool" where
  "unit_draw f = (\<forall>n>0. 0 \<le> f n \<and> f n < int n)"

text \<open>
  The test that opens \<open>refreshSpotifyToken\<close>, on the next reading of the clock, and the
  world after that test, which reads the clock only when the access token is truthy.
\<close>

definition usable :: "world \<Rightarrow> bool" where
  "usable w = (truthy (accessToken (tokenStorage w)) \<and> tokenExpiry (tokenStorage w) > shd (clock w))"

definition checked :: "world \<Rightarrow> world" where
  "checked w = (if truthy (accessToken (tokenStorage w)) then w\<lparr>clock := stl (clock w)\<rparr> else w)"

text \<open>
  The requests that \<open>handler\<close> sends to the \<open>/callback\<close> route, to the
  \<open>POST /set-token\<close> route and to the default route.
\<close>

definition is_callback :: "request \<Rightarrow> bool" where
  "is_callback req = (req_method req \<noteq> ''OPTIONS'' \<and> last_segment (pathname req) = ''callback'')"

definition is_set_token :: "request \<Rightarrow> bool" where
  "is_set_token req = (req_method req = ''POST'' \<and> last_segment (pathname req) = ''set-token'')"

definition is_default :: "request \<Rightarrow> bool" where
  "is_default req =
     (req_method req \<noteq> ''OPTIONS''
      \<and> last_segment (pathname req) \<noteq> ''auth''
      \<and> last_segment (pathname req) \<noteq> ''callback''
      \<and> \<not> (last_segment (pathname req) = ''set-token'' \<and> req_method req = ''POST''))"

section \<open>Concrete inputs\<close>

text \<open>
  A small environment and world for running the functions on concrete inputs: every
  endpoint answers with a fixed reply, the clock stands still, every random reading
  is one half (\<open>half\<close>; \<open>lowest\<close> is the reading zero), the digest and the query-string encoder are stand-ins, and the numbers
  are small enough for the double operations to be exact.
\<close>

definition exampleEnv :: "token_reply \<Rightarrow> np_reply \<Rightarrow> slack_reply \<Rightarrow> env" where
  "exampleEnv tr nr sr =
     \<lparr>CLIENT_ID = ''id'', CLIENT_SECRET = ''secret'', SLACK_TOKEN = ''xoxp'',
      BASE_URL = ''http://localhost:8000'',
      token_endpoint = (\<lambda>_. tr), now_playing_endpoint = (\<lambda>_. nr),
      image_host = (\<lambda>_. Some ''png''), slack_api = (\<lambda>_. sr),
      btoa_sha256 = (\<lambda>s. s),
      url_search_params = (\<lambda>ps. join ''&'' (map (\<lambda>(k, v). k @ ''='' @ v) ps)),
      double_add = (\<lambda>a b. a + b), double_mul = (\<lambda>a b. a * b)\<rparr>"

definition half :: "nat \<Rightarrow> int" where
  "half n = int (n div 2)"

definition lowest :: "nat \<Rightarrow> int" where
  "lowest n = 0"

definition exampleWorld :: "TokenStorage \<Rightarrow> int \<Rightarrow> world" where
  "exampleWorld ts t =
     \<lparr>tokenStorage = ts, clock = sconst t, random = sconst half, fetched = [], console = []\<rparr>"

definition exampleStorage :: TokenStorage where
  "exampleStorage = initialTokenStorage\<lparr>accessToken := Some ''a'', tokenExpiry := 1000\<rparr>"

definition exampleRequest :: "string \<Rightarrow> string \<Rightarrow> string option \<Rightarrow> req_json \<Rightarrow> request" where
  "exampleRequest m p c j = \<lparr>req_method = m, pathname = p, code_param = c, json_body = j\<rparr>"

text \<open>A body of the now-playing endpoint: two artists, and the given image variants.\<close>

definition exampleAlbum :: "image list \<Rightarrow> album" where
  "exampleAlbum imgs = \<lparr>album_name = Some ''Album'', album_images = Some imgs\<rparr>"

definition exampleBody :: "image list \<Rightarrow> now_playing_data" where
  "exampleBody imgs =
     \<lparr>is_playing = True,
      item = Some \<lparr>item_name = Some ''Song'',
                   artists = Some [\<lparr>artist_name = ''A''\<rparr>, \<lparr>artist_name = ''B''\<rparr>],
                   album = Some (exampleAlbum imgs),
                   item_external_urls = Some \<lparr>spotify = Some ''https://open.spotify.com/track/1''\<rparr>\<rparr>\<rparr>"

text \<open>A body whose item is not a track: it has a name and no \<open>artists\<close>.\<close>

definition exampleEpisode :: now_playing_data where
  "exampleEpisode =
     \<lparr>is_playing = True,
      item = Some \<lparr>item_name = Some ''Episode'', artists = None, album = None,
                   item_external_urls = None\<rparr>\<rparr>"

text \<open>A token endpoint that grants the code exchange and rejects every refresh.\<close>

definition exchangeOnly :: "token_data \<Rightarrow> call \<Rightarrow> token_reply" where
  "exchangeOnly d c = (case c of TokenExchange _ _ _ _ _ \<Rightarrow> TokenOk d | _ \<Rightarrow> TokenRejected)"

section \<open>Properties\<close>

lemma getRandomIndex_skip:
  "1 < length array \<Longrightarrow>
   \<forall>k<n. (rnd !! k) (length array) = lastIndex \<Longrightarrow>
   (rnd !! n) (length array) \<noteq> lastIndex \<Longrightarrow>
   getRandomIndex array lastIndex rnd = Some ((rnd !! n) (length array), sdrop (Suc n) rnd)"
proof (induction n arbitrary: rnd)
  case 0
  then show ?case by (subst getRandomIndex.simps) simp
next
  case (Suc n)
  have first: "shd rnd (length array) = lastIndex"
    using Suc.prems(2) [rule_format, of 0] by simp
  have "getRandomIndex array lastIndex (stl rnd) =
          Some ((stl rnd !! n) (length array), sdrop (Suc n) (stl rnd))"
  proof (rule Suc.IH)
    show "1 < length array" by fact
    show "\<forall>k<n. (stl rnd !! k) (length array) = lastIndex"
      using Suc.prems(2) by (metis Suc_less_eq snth.simps(2))
    show "(stl rnd !! n) (length array) \<noteq> lastIndex"
      using Suc.prems(3) by simp
  qed
  then show ?case
    using first Suc.prems(1) by (subst getRandomIndex.simps) simp
qed

lemma unit_drawD: "unit_draw f \<Longrightarrow> 0 < n \<Longrightarrow> 0 \<le> f n \<and> f n < int n"
  unfolding unit_draw_def by (erule allE [of _ n]) (erule impE, assumption+)

lemma getRandomIndex_single_draw:
  "shd rnd (length array) \<noteq> lastIndex \<or> length array \<le> 1 \<Longrightarrow>
   getRandomIndex array lastIndex rnd = Some (shd rnd (length array), stl rnd)"
  by (subst getRandomIndex.simps) auto

lemma getRandomIndex_Some_draw:
  assumes "getRandomIndex array lastIndex rnd = Some y"
  shows "1 < length array \<longrightarrow> (\<exists>n. (rnd !! n) (length array) \<noteq> lastIndex)"
proof (rule getRandomIndex.raw_induct
    [where P = "\<lambda>a l r y. 1 < length a \<longrightarrow> (\<exists>n. (r !! n) (length a) \<noteq> l)", OF _ assms])
  fix f :: "'a list \<Rightarrow> int \<Rightarrow> (nat \<Rightarrow> int) stream \<Rightarrow> (int \<times> (nat \<Rightarrow> int) stream) option"
    and a :: "'a list" and l r z
  assume IH: "\<And>a l r y. f a l r = Some y \<Longrightarrow>
      1 < length a \<longrightarrow> (\<exists>n. (r !! n) (length a) \<noteq> l)"
    and body: "(let newIndex = shd r (length a)
         in if newIndex = l \<and> 1 < length a then f a l (stl r)
            else Some (newIndex, stl r)) = Some z"
  show "1 < length a \<longrightarrow> (\<exists>n. (r !! n) (length a) \<noteq> l)"
  proof (cases "shd r (length a) = l \<and> 1 < length a")
    case True
    with body have "f a l (stl r) = Some z" by (simp add: Let_def)
    from IH [OF this] True obtain n where "(stl r !! n) (length a) \<noteq> l" by blast
    then have "(r !! Suc n) (length a) \<noteq> l" by simp
    then show ?thesis by blast
  next
    case False
    then have "1 < length a \<longrightarrow> (r !! 0) (length a) \<noteq> l" by auto
    then show ?thesis by blast
  qed
qed

lemma getRandomIndex_stuck:
  assumes "1 < length array" and "\<forall>n. (rnd !! n) (length array) = lastIndex"
  shows "getRandomIndex array lastIndex rnd = None"
proof (cases "getRandomIndex array lastIndex rnd")
  case None
  then show ?thesis .
next
  case (Some y)
  from getRandomIndex_Some_draw [OF this] assms show ?thesis by blast
qed

subsection \<open>The selector\<close>

text \<open>
  Claim C2, as stated, fails: the loop has no bound, and with a random source whose
  every reading is zero, an array of two elements and previous index 0, each draw is
  index 0 and \<open>getRandomIndex\<close> never returns.
\<close>

theorem getRandomIndex_non_repeating_counterexample:
  "unit_draw lowest \<and> getRandomIndex [''a.png'', ''b.png''] 0 (sconst lowest) = None"
proof -
  have range: "unit_draw lowest" by (simp add: unit_draw_def lowest_def)
  have len: "1 < length [''a.png'', ''b.png'']" by simp
  have same: "\<forall>n. (sconst lowest !! n) (length [''a.png'', ''b.png'']) = 0"
    by (simp add: lowest_def)
  have "getRandomIndex [''a.png'', ''b.png''] 0 (sconst lowest) = None"
    by (rule getRandomIndex_stuck [OF len same])
  with range show ?thesis by (rule conjI)
qed

text \<open>
  Claim C2, amended. Let every reading of the random source be in \<open>[0, 1)\<close>. For an
  array of more than one element and any previous index: if some draw differs from the
  previous index, \<open>getRandomIndex\<close> returns, and its result is an index in
  \<open>[0, length)\<close> other than the previous one; if no draw ever differs, it does not
  return. For an array of exactly one element it returns index 0 after a single draw,
  whatever the previous index. The variant of \<open>utils.ts\<close> returns the same index and
  leaves it in its module variable.
\<close>

theorem getRandomIndex_non_repeating:
  assumes range: "\<forall>f \<in> sset rnd. unit_draw f"
  shows "(1 < length array \<longrightarrow> (\<exists>n. (rnd !! n) (length array) \<noteq> lastIndex) \<longrightarrow>
            (\<exists>i rnd'. getRandomIndex array lastIndex rnd = Some (i, rnd')
                \<and> getRandomIndex_utils array lastIndex rnd = Some (i, i, rnd')
                \<and> 0 \<le> i \<and> i < int (length array) \<and> i \<noteq> lastIndex))
       \<and> (1 < length array \<longrightarrow> (\<forall>n. (rnd !! n) (length array) = lastIndex) \<longrightarrow>
            getRandomIndex array lastIndex rnd = None)
       \<and> (length array = 1 \<longrightarrow>
            getRandomIndex array lastIndex rnd = Some (0, stl rnd)
            \<and> getRandomIndex_utils array lastIndex rnd = Some (0, 0, stl rnd))"
proof -
  have several: "\<exists>i rnd'. getRandomIndex array lastIndex rnd = Some (i, rnd')
                \<and> getRandomIndex_utils array lastIndex rnd = Some (i, i, rnd')
                \<and> 0 \<le> i \<and> i < int (length array) \<and> i \<noteq> lastIndex"
    if len: "1 < length array"
      and fair: "\<exists>n. (rnd !! n) (length array) \<noteq> lastIndex"
  proof -
    define P where "P n \<longleftrightarrow> (rnd !! n) (length array) \<noteq> lastIndex" for n
    define m where "m = (LEAST n. P n)"
    from fair obtain n0 where "P n0" by (auto simp: P_def)
    then have Pm: "P m" unfolding m_def by (rule LeastI)
    have before: "\<forall>k<m. (rnd !! k) (length array) = lastIndex"
    proof (intro allI impI)
      fix k assume "k < m"
      then have "\<not> P k" unfolding m_def by (rule not_less_Least)
      then show "(rnd !! k) (length array) = lastIndex" by (simp add: P_def)
    qed
    have res: "getRandomIndex array lastIndex rnd =
        Some ((rnd !! m) (length array), sdrop (Suc m) rnd)"
      using getRandomIndex_skip [OF len before] Pm by (simp add: P_def)
    have "rnd !! m \<in> sset rnd" by simp
    then have "unit_draw (rnd !! m)" using range by (rule bspec [rotated])
    moreover have "0 < length array" using len by (cases array) simp_all
    ultimately have "0 \<le> (rnd !! m) (length array) \<and> (rnd !! m) (length array) < int (length array)"
      by (rule unit_drawD)
    with res Pm show ?thesis by (simp add: P_def getRandomIndex_utils_def)
  qed
  have single: "getRandomIndex array lastIndex rnd = Some (0, stl rnd)
      \<and> getRandomIndex_utils array lastIndex rnd = Some (0, 0, stl rnd)"
    if one: "length array = 1"
  proof -
    have "shd rnd \<in> sset rnd" by (rule shd_sset)
    then have "unit_draw (shd rnd)" using range by (rule bspec [rotated])
    then have "0 \<le> shd rnd 1 \<and> shd rnd 1 < int 1" by (rule unit_drawD) simp
    then have z: "shd rnd (length array) = 0" using one by simp
    have "getRandomIndex array lastIndex rnd = Some (shd rnd (length array), stl rnd)"
      by (rule getRandomIndex_single_draw) (simp add: one)
    then show ?thesis by (simp add: getRandomIndex_utils_def z)
  qed
  have stuck: "getRandomIndex array lastIndex rnd = None"
    if "1 < length array" and "\<forall>n. (rnd !! n) (length array) = lastIndex"
    using that by (rule getRandomIndex_stuck)
  show ?thesis
    apply (rule conjI)
     apply (intro impI)
     apply (erule (1) several)
    apply (rule conjI)
     apply (intro impI)
     apply (erule (1) stuck)
    apply (intro impI)
    apply (erule single)
    done
qed

theorem getRandomIndex_non_repeating_witness:
  "(\<exists>i rnd'. getRandomIndex [''a.png'', ''b.png''] 0 (lowest ## sconst half) = Some (i, rnd')
        \<and> 0 \<le> i \<and> i < 2 \<and> i \<noteq> 0)
   \<and> getRandomIndex [''a.png'', ''b.png''] 1 (sconst half) = None
   \<and> getRandomIndex [''a.png''] 0 (lowest ## sconst half) = Some (0, sconst half)"
proof -
  have r: "\<forall>f \<in> sset (lowest ## sconst half). unit_draw f"
    and r': "\<forall>f \<in> sset (sconst half). unit_draw f"
    by (auto simp add: unit_draw_def lowest_def half_def)
  have f: "\<exists>n. ((lowest ## sconst half) !! n) (length [''a.png'', ''b.png'']) \<noteq> 0"
    by (rule exI [of _ 1]) (simp add: half_def)
  have s: "\<forall>n. (sconst half !! n) (length [''a.png'', ''b.png'']) = 1"
    by (simp add: half_def)
  show ?thesis
    using getRandomIndex_non_repeating [OF r, of "[''a.png'', ''b.png'']" 0]
      getRandomIndex_non_repeating [OF r', of "[''a.png'', ''b.png'']" 1]
      getRandomIndex_non_repeating [OF r, of "[''a.png'']" 0] f s
    by simp blast
qed

subsection \<open>The token store\<close>

lemma checked_fields [simp]:
  "tokenStorage (checked w) = tokenStorage w"
  "fetched (checked w) = fetched w"
  "console (checked w) = console w"
  "random (checked w) = random w"
  by (simp_all add: checked_def)

lemma say_fields [simp]:
  "tokenStorage (say l w) = tokenStorage w"
  "fetched (say l w) = fetched w"
  "console (say l w) = console w @ [l]"
  "clock (say l w) = clock w"
  "random (say l w) = random w"
  by (simp_all add: say_def)

lemma issue_fields [simp]:
  "tokenStorage (issue c w) = tokenStorage w"
  "fetched (issue c w) = fetched w @ [c]"
  "console (issue c w) = console w"
  "clock (issue c w) = clock w"
  "random (issue c w) = random w"
  by (simp_all add: issue_def)

lemma refresh_usable:
  "usable w \<Longrightarrow>
   refreshSpotifyToken e w = (accessToken (tokenStorage w), w\<lparr>clock := stl (clock w)\<rparr>)"
  by (simp add: refreshSpotifyToken_def usable_def Date_now_def)

lemma refresh_no_refresh_token:
  "\<not> usable w \<Longrightarrow> \<not> truthy (refreshToken (tokenStorage w)) \<Longrightarrow>
   refreshSpotifyToken e w = (None, say (Error ''No refresh token available'') (checked w))"
  by (auto simp add: refreshSpotifyToken_def usable_def Date_now_def checked_def truthy_def
      split: option.splits)

lemma refresh_not_ok:
  "\<not> usable w \<Longrightarrow> refreshToken (tokenStorage w) = Some rt \<Longrightarrow> rt \<noteq> [] \<Longrightarrow>
   token_endpoint e (TokenRefresh (CLIENT_ID e) (CLIENT_SECRET e) rt) = reply \<Longrightarrow>
   reply = TokenThrew \<or> reply = TokenRejected \<Longrightarrow>
   \<exists>l. refreshSpotifyToken e w =
     (None, say l (issue (TokenRefresh (CLIENT_ID e) (CLIENT_SECRET e) rt) (checked w)))"
  by (auto simp add: refreshSpotifyToken_def usable_def Date_now_def checked_def Let_def)

lemma refresh_ok:
  "\<not> usable w \<Longrightarrow> refreshToken (tokenStorage w) = Some rt \<Longrightarrow> rt \<noteq> [] \<Longrightarrow>
   token_endpoint e (TokenRefresh (CLIENT_ID e) (CLIENT_SECRET e) rt) = TokenOk d \<Longrightarrow>
   fst (refreshSpotifyToken e w) = Some (access_token d)"
  by (auto simp add: refreshSpotifyToken_def usable_def Date_now_def checked_def Let_def
      split: prod.splits)

lemma refresh_None_cases:
  assumes "fst (refreshSpotifyToken e w) = None"
  shows "\<not> usable w \<and>
     (\<not> truthy (refreshToken (tokenStorage w)) \<or>
      (\<exists>rt. refreshToken (tokenStorage w) = Some rt \<and> rt \<noteq> [] \<and>
         (token_endpoint e (TokenRefresh (CLIENT_ID e) (CLIENT_SECRET e) rt) = TokenThrew \<or>
          token_endpoint e (TokenRefresh (CLIENT_ID e) (CLIENT_SECRET e) rt) = TokenRejected)))"
proof -
  have nu: "\<not> usable w"
  proof
    assume u: "usable w"
    then have "fst (refreshSpotifyToken e w) = accessToken (tokenStorage w)"
      by (simp add: refresh_usable)
    with assms u show False by (simp add: usable_def truthy_def)
  qed
  show ?thesis
  proof (cases "truthy (refreshToken (tokenStorage w))")
    case False
    with nu show ?thesis by simp
  next
    case True
    then obtain rt where rt: "refreshToken (tokenStorage w) = Some rt" "rt \<noteq> []"
      by (auto simp: truthy_def split: option.splits)
    show ?thesis
    proof (cases "token_endpoint e (TokenRefresh (CLIENT_ID e) (CLIENT_SECRET e) rt)")
      case (TokenOk d)
      from refresh_ok [OF nu rt this] assms show ?thesis by simp
    qed (use nu rt in auto)
  qed
qed


text \<open>
  Claim C3. \<open>refreshSpotifyToken\<close> returns \<open>null\<close> in two ways. When the stored
  access token is not usable and there is no refresh token, it returns \<open>null\<close>
  and issues no request. When the refresh request throws or is rejected, it returns
  \<open>null\<close>, the request being the only one issued. In both, the token storage is
  the one before the call, field for field. There is no other way: if the result is
  \<open>null\<close>, the access token was not usable, the storage is unchanged, and either the
  refresh token is absent or empty and no request was issued, or the single refresh
  request was issued and threw or was rejected.
\<close>

theorem refreshSpotifyToken_failure_modes:
  "(\<not> usable w \<and> refreshToken (tokenStorage w) = None \<longrightarrow>
      fst (refreshSpotifyToken e w) = None
      \<and> fetched (snd (refreshSpotifyToken e w)) = fetched w
      \<and> tokenStorage (snd (refreshSpotifyToken e w)) = tokenStorage w)
   \<and> (\<not> usable w \<and> refreshToken (tokenStorage w) = Some rt \<and> rt \<noteq> []
       \<and> (token_endpoint e (TokenRefresh (CLIENT_ID e) (CLIENT_SECRET e) rt) = TokenThrew
          \<or> token_endpoint e (TokenRefresh (CLIENT_ID e) (CLIENT_SECRET e) rt) = TokenRejected) \<longrightarrow>
      fst (refreshSpotifyToken e w) = None
      \<and> fetched (snd (refreshSpotifyToken e w))
          = fetched w @ [TokenRefresh (CLIENT_ID e) (CLIENT_SECRET e) rt]
      \<and> tokenStorage (snd (refreshSpotifyToken e w)) = tokenStorage w)
   \<and> (fst (refreshSpotifyToken e w) = None \<longrightarrow>
      \<not> usable w
      \<and> tokenStorage (snd (refreshSpotifyToken e w)) = tokenStorage w
      \<and> (\<not> truthy (refreshToken (tokenStorage w))
            \<and> fetched (snd (refreshSpotifyToken e w)) = fetched w
          \<or> (\<exists>r. refreshToken (tokenStorage w) = Some r \<and> r \<noteq> []
               \<and> (token_endpoint e (TokenRefresh (CLIENT_ID e) (CLIENT_SECRET e) r) = TokenThrew
                  \<or> token_endpoint e (TokenRefresh (CLIENT_ID e) (CLIENT_SECRET e) r) = TokenRejected)
               \<and> fetched (snd (refreshSpotifyToken e w))
                   = fetched w @ [TokenRefresh (CLIENT_ID e) (CLIENT_SECRET e) r])))"
proof (intro conjI impI)
  assume a: "\<not> usable w \<and> refreshToken (tokenStorage w) = None"
  then have eq: "refreshSpotifyToken e w
      = (None, say (Error ''No refresh token available'') (checked w))"
    by (simp add: refresh_no_refresh_token truthy_def)
  show "fst (refreshSpotifyToken e w) = None"
    and "fetched (snd (refreshSpotifyToken e w)) = fetched w"
    and "tokenStorage (snd (refreshSpotifyToken e w)) = tokenStorage w"
    by (simp_all add: eq)
next
  assume b: "\<not> usable w \<and> refreshToken (tokenStorage w) = Some rt \<and> rt \<noteq> []
       \<and> (token_endpoint e (TokenRefresh (CLIENT_ID e) (CLIENT_SECRET e) rt) = TokenThrew
          \<or> token_endpoint e (TokenRefresh (CLIENT_ID e) (CLIENT_SECRET e) rt) = TokenRejected)"
  then obtain l where eq: "refreshSpotifyToken e w =
     (None, say l (issue (TokenRefresh (CLIENT_ID e) (CLIENT_SECRET e) rt) (checked w)))"
    using refresh_not_ok [of w rt e] by blast
  show "fst (refreshSpotifyToken e w) = None"
    and "fetched (snd (refreshSpotifyToken e w))
          = fetched w @ [TokenRefresh (CLIENT_ID e) (CLIENT_SECRET e) rt]"
    and "tokenStorage (snd (refreshSpotifyToken e w)) = tokenStorage w"
    by (simp_all add: eq)
next
  assume n: "fst (refreshSpotifyToken e w) = None"
  note cases = refresh_None_cases [OF n]
  then show nu: "\<not> usable w" by simp
  show "tokenStorage (snd (refreshSpotifyToken e w)) = tokenStorage w"
  proof (cases "truthy (refreshToken (tokenStorage w))")
    case False
    with nu show ?thesis by (simp add: refresh_no_refresh_token)
  next
    case True
    with cases obtain r l where "refreshSpotifyToken e w =
        (None, say l (issue (TokenRefresh (CLIENT_ID e) (CLIENT_SECRET e) r) (checked w)))"
      using refresh_not_ok [of w _ e] by blast
    then show ?thesis by simp
  qed
  show "\<not> truthy (refreshToken (tokenStorage w))
            \<and> fetched (snd (refreshSpotifyToken e w)) = fetched w
          \<or> (\<exists>r. refreshToken (tokenStorage w) = Some r \<and> r \<noteq> []
               \<and> (token_endpoint e (TokenRefresh (CLIENT_ID e) (CLIENT_SECRET e) r) = TokenThrew
                  \<or> token_endpoint e (TokenRefresh (CLIENT_ID e) (CLIENT_SECRET e) r) = TokenRejected)
               \<and> fetched (snd (refreshSpotifyToken e w))
                   = fetched w @ [TokenRefresh (CLIENT_ID e) (CLIENT_SECRET e) r])"
  proof (cases "truthy (refreshToken (tokenStorage w))")
    case False
    with nu show ?thesis by (simp add: refresh_no_refresh_token)
  next
    case True
    with cases obtain r where r: "refreshToken (tokenStorage w) = Some r" "r \<noteq> []"
      "token_endpoint e (TokenRefresh (CLIENT_ID e) (CLIENT_SECRET e) r) = TokenThrew
       \<or> token_endpoint e (TokenRefresh (CLIENT_ID e) (CLIENT_SECRET e) r) = TokenRejected"
      by blast
    then obtain l where "refreshSpotifyToken e w =
        (None, say l (issue (TokenRefresh (CLIENT_ID e) (CLIENT_SECRET e) r) (checked w)))"
      using refresh_not_ok [OF nu r(1) r(2) refl] by blast
    with r show ?thesis by simp
  qed
qed

theorem refreshSpotifyToken_failure_modes_witness:
  "fst (refreshSpotifyToken (exampleEnv TokenRejected NpThrew SlackThrew)
          (exampleWorld initialTokenStorage 0)) = None
   \<and> fetched (snd (refreshSpotifyToken (exampleEnv TokenRejected NpThrew SlackThrew)
          (exampleWorld initialTokenStorage 0))) = []
   \<and> fst (refreshSpotifyToken (exampleEnv TokenRejected NpThrew SlackThrew)
          (exampleWorld (initialTokenStorage\<lparr>refreshToken := Some ''r''\<rparr>) 0)) = None
   \<and> fetched (snd (refreshSpotifyToken (exampleEnv TokenRejected NpThrew SlackThrew)
          (exampleWorld (initialTokenStorage\<lparr>refreshToken := Some ''r''\<rparr>) 0)))
        = [TokenRefresh ''id'' ''secret'' ''r'']
   \<and> tokenStorage (snd (refreshSpotifyToken (exampleEnv TokenRejected NpThrew SlackThrew)
          (exampleWorld (initialTokenStorage\<lparr>refreshToken := Some ''r''\<rparr>) 0)))
        = initialTokenStorage\<lparr>refreshToken := Some ''r''\<rparr>"
  using refreshSpotifyToken_failure_modes
      [of "exampleWorld initialTokenStorage 0" "exampleEnv TokenRejected NpThrew SlackThrew"]
    refreshSpotifyToken_failure_modes
      [of "exampleWorld (initialTokenStorage\<lparr>refreshToken := Some ''r''\<rparr>) 0"
          "exampleEnv TokenRejected NpThrew SlackThrew" "''r''"]
  by (simp add: usable_def truthy_def exampleWorld_def exampleEnv_def initialTokenStorage_def)

text \<open>
  Claim C5, as stated, fails for a stored access token that is the empty string: it is
  not \<open>null\<close> and its expiry is in the future, yet the first test of the source takes
  it for absent, and a refresh request is issued.
\<close>

theorem refreshSpotifyToken_fast_path_counterexample:
  "accessToken (tokenStorage (exampleWorld
       (initialTokenStorage\<lparr>accessToken := Some [], refreshToken := Some ''r'', tokenExpiry := 1000\<rparr>) 0))
     \<noteq> None
   \<and> tokenExpiry (tokenStorage (exampleWorld
       (initialTokenStorage\<lparr>accessToken := Some [], refreshToken := Some ''r'', tokenExpiry := 1000\<rparr>) 0))
     > shd (clock (exampleWorld
       (initialTokenStorage\<lparr>accessToken := Some [], refreshToken := Some ''r'', tokenExpiry := 1000\<rparr>) 0))
   \<and> fst (refreshSpotifyToken
        (exampleEnv (TokenOk \<lparr>access_token = ''new'', refresh_token = None, expires_in = 3600\<rparr>)
           NpThrew SlackThrew)
        (exampleWorld
          (initialTokenStorage\<lparr>accessToken := Some [], refreshToken := Some ''r'', tokenExpiry := 1000\<rparr>) 0))
     = Some ''new''
   \<and> fetched (snd (refreshSpotifyToken
        (exampleEnv (TokenOk \<lparr>access_token = ''new'', refresh_token = None, expires_in = 3600\<rparr>)
           NpThrew SlackThrew)
        (exampleWorld
          (initialTokenStorage\<lparr>accessToken := Some [], refreshToken := Some ''r'', tokenExpiry := 1000\<rparr>) 0)))
     = [TokenRefresh ''id'' ''secret'' ''r'']"
  by (simp add: refreshSpotifyToken_def truthy_def exampleWorld_def exampleEnv_def
      initialTokenStorage_def Date_now_def issue_def say_def)

text \<open>
  Claim C5, amended. Whenever the stored access token is neither \<open>null\<close> nor empty and
  its expiry is strictly after the reading of the clock, \<open>refreshSpotifyToken\<close> returns
  that token and changes nothing but the clock reading it consumed: no request is
  issued. Called again while the expiry is still after the next reading, it returns
  the same token, again with no request.
\<close>

theorem refreshSpotifyToken_fast_path:
  assumes "truthy (accessToken (tokenStorage w))"
    and "tokenExpiry (tokenStorage w) > shd (clock w)"
  shows "refreshSpotifyToken e w = (accessToken (tokenStorage w), w\<lparr>clock := stl (clock w)\<rparr>)
    \<and> fetched (snd (refreshSpotifyToken e w)) = fetched w
    \<and> (tokenExpiry (tokenStorage w) > shd (stl (clock w)) \<longrightarrow>
         refreshSpotifyToken e' (snd (refreshSpotifyToken e w))
           = (accessToken (tokenStorage w), w\<lparr>clock := stl (stl (clock w))\<rparr>)
         \<and> fetched (snd (refreshSpotifyToken e' (snd (refreshSpotifyToken e w)))) = fetched w)"
proof -
  have u: "usable w" using assms by (simp add: usable_def)
  have first: "refreshSpotifyToken e w
      = (accessToken (tokenStorage w), w\<lparr>clock := stl (clock w)\<rparr>)"
    by (rule refresh_usable [OF u])
  have second: "refreshSpotifyToken e' (w\<lparr>clock := stl (clock w)\<rparr>)
      = (accessToken (tokenStorage w), w\<lparr>clock := stl (stl (clock w))\<rparr>)"
    if "tokenExpiry (tokenStorage w) > shd (stl (clock w))"
  proof -
    have "usable (w\<lparr>clock := stl (clock w)\<rparr>)" using assms(1) that by (simp add: usable_def)
    from refresh_usable [OF this, of e'] show ?thesis by simp
  qed
  show ?thesis using first second by simp
qed

theorem refreshSpotifyToken_fast_path_witness:
  "refreshSpotifyToken (exampleEnv TokenRejected NpThrew SlackThrew)
     (snd (refreshSpotifyToken (exampleEnv TokenRejected NpThrew SlackThrew)
        (exampleWorld (initialTokenStorage\<lparr>accessToken := Some ''a'', tokenExpiry := 1000\<rparr>) 0)))
   = (Some ''a'',
      exampleWorld (initialTokenStorage\<lparr>accessToken := Some ''a'', tokenExpiry := 1000\<rparr>) 0)"
  using refreshSpotifyToken_fast_path
      [of "exampleWorld (initialTokenStorage\<lparr>accessToken := Some ''a'', tokenExpiry := 1000\<rparr>) 0"
          "exampleEnv TokenRejected NpThrew SlackThrew" "exampleEnv TokenRejected NpThrew SlackThrew"]
  by (simp add: truthy_def exampleWorld_def initialTokenStorage_def)

subsection \<open>The track poller\<close>

lemma getCurrentlyPlaying_204:
  assumes "refreshSpotifyToken e w = (Some tok, w1)" and "tok \<noteq> []"
    and "now_playing_endpoint e (NowPlaying tok) = NpResponse 204 b"
  shows "getCurrentlyPlaying e w =
     (Some notPlaying, say (Log ''response'') (issue (NowPlaying tok) (say (Log ''token'') w1)))"
  using assms by (cases tok) (simp_all add: getCurrentlyPlaying_def)

lemma getCurrentlyPlaying_ok:
  assumes "refreshSpotifyToken e w = (Some tok, w1)" and "tok \<noteq> []"
    and "now_playing_endpoint e (NowPlaying tok) = NpResponse code (Some data)"
    and "code \<noteq> 204" and "200 \<le> code" and "code \<le> 299"
  shows "fst (getCurrentlyPlaying e w) = trackOf data"
  using assms
  by (cases tok) (simp_all add: getCurrentlyPlaying_def Let_def split: option.splits)

lemma join_concat: "join sep xs = drop (length sep) (concat (map (\<lambda>x. sep @ x) xs))"
  by (induction sep xs rule: join.induct) simp_all

lemma join_comma: "join '', '' xs = drop 2 (concat (map (\<lambda>x. '', '' @ x) xs))"
  using join_concat [of "'', ''" xs] by (simp add: numeral_2_eq_2)

lemma trackOf_no_item:
  "item data = None \<Longrightarrow>
   \<exists>t. trackOf data = Some t \<and> artistName t = None \<and> albumArtUrl t = None"
  by (simp add: trackOf_def)

lemma trackOf_no_album:
  "item data = Some i \<Longrightarrow> artists i = Some as \<Longrightarrow> album i = None \<Longrightarrow>
   \<exists>t. trackOf data = Some t
     \<and> artistName t = Some (drop 2 (concat (map (\<lambda>a. '', '' @ artist_name a) as)))
     \<and> albumArtUrl t = None"
  by (simp add: trackOf_def join_comma comp_def)

lemma trackOf_album:
  "item data = Some i \<Longrightarrow> artists i = Some as \<Longrightarrow> album i = Some a \<Longrightarrow>
   album_images a = Some imgs \<Longrightarrow>
   \<exists>t. trackOf data = Some t
     \<and> artistName t = Some (drop 2 (concat (map (\<lambda>a. '', '' @ artist_name a) as)))
     \<and> albumArtUrl t = (case imgs of [] \<Rightarrow> None | im # _ \<Rightarrow> Some (url im))"
  by (simp add: trackOf_def join_comma comp_def at_index_def split: list.splits)

lemma trackOf_throws:
  "item data = Some i \<Longrightarrow>
   artists i = None \<or> (\<exists>a. album i = Some a \<and> album_images a = None) \<Longrightarrow>
   trackOf data = None"
  by (auto simp add: trackOf_def split: option.splits)

lemma refresh_exampleStorage:
  "refreshSpotifyToken (exampleEnv tr nr sr) (exampleWorld exampleStorage 0)
     = (Some ''a'', exampleWorld exampleStorage 0)"
  by (simp add: refreshSpotifyToken_def truthy_def exampleWorld_def exampleStorage_def
      initialTokenStorage_def Date_now_def)

text \<open>
  Claim C7. When a token was obtained and the now-playing endpoint answers 204,
  \<open>getCurrentlyPlaying\<close> returns the object whose only field is \<open>isPlaying: false\<close>:
  name, artist, album, both URLs and the art variants are absent. The now-playing
  request is the only one issued after the token was obtained.
\<close>

theorem getCurrentlyPlaying_no_content:
  assumes "refreshSpotifyToken e w = (Some tok, w1)" and "tok \<noteq> []"
    and "now_playing_endpoint e (NowPlaying tok) = NpResponse 204 b"
  shows "fst (getCurrentlyPlaying e w) =
       Some \<lparr>isPlaying = False, trackName = None, artistName = None, albumName = None,
             trackUrl = None, albumArtUrl = None, albumArt = None\<rparr>
     \<and> fetched (snd (getCurrentlyPlaying e w)) = fetched w1 @ [NowPlaying tok]"
  using getCurrentlyPlaying_204 [OF assms] by (simp add: notPlaying_def)

theorem getCurrentlyPlaying_no_content_witness:
  "fst (getCurrentlyPlaying (exampleEnv TokenRejected (NpResponse 204 None) SlackThrew)
          (exampleWorld exampleStorage 0)) =
       Some \<lparr>isPlaying = False, trackName = None, artistName = None, albumName = None,
             trackUrl = None, albumArtUrl = None, albumArt = None\<rparr>
   \<and> fetched (snd (getCurrentlyPlaying (exampleEnv TokenRejected (NpResponse 204 None) SlackThrew)
          (exampleWorld exampleStorage 0))) = [NowPlaying ''a'']"
proof -
  have ne: "''a'' \<noteq> []" by simp
  have np: "now_playing_endpoint (exampleEnv TokenRejected (NpResponse 204 None) SlackThrew)
      (NowPlaying ''a'') = NpResponse 204 None"
    by (simp add: exampleEnv_def)
  show ?thesis
    using getCurrentlyPlaying_no_content [OF refresh_exampleStorage ne np]
    by (simp add: exampleWorld_def)
qed

text \<open>
  Claim C8, as stated, fails: a 200 answer whose body has an item without an \<open>artists\<close>
  list makes the expression that builds the track throw, and the poller returns
  \<open>null\<close> instead of a track state.
\<close>

theorem getCurrentlyPlaying_track_fields_counterexample:
  "now_playing_endpoint (exampleEnv TokenRejected (NpResponse 200 (Some exampleEpisode)) SlackThrew)
       (NowPlaying ''a'') = NpResponse 200 (Some exampleEpisode)
   \<and> fst (getCurrentlyPlaying
            (exampleEnv TokenRejected (NpResponse 200 (Some exampleEpisode)) SlackThrew)
            (exampleWorld exampleStorage 0)) = None
   \<and> fetched (snd (getCurrentlyPlaying
            (exampleEnv TokenRejected (NpResponse 200 (Some exampleEpisode)) SlackThrew)
            (exampleWorld exampleStorage 0))) = [NowPlaying ''a'']"
  by (simp add: getCurrentlyPlaying_def refreshSpotifyToken_def trackOf_def exampleEpisode_def
      exampleStorage_def exampleWorld_def exampleEnv_def initialTokenStorage_def
      truthy_def Date_now_def issue_def say_def)

text \<open>
  Claim C8, amended. When a token was obtained and the now-playing endpoint answers 200
  with a JSON body: if the body has no item, the track has neither artist name nor
  album-art URL; if the item has an \<open>artists\<close> list, and its album, when there is
  one, an \<open>images\<close> list, the artist name is the artists' names with a comma and a space
  between consecutive names (each name prefixed by the separator, the first separator
  dropped), and the album-art URL is the URL of the first image, absent when the list is
  empty or there is no album; if the item has no \<open>artists\<close> list, or its album no
  \<open>images\<close> list, the poller returns \<open>null\<close>.
\<close>

theorem getCurrentlyPlaying_track_fields:
  assumes "refreshSpotifyToken e w = (Some tok, w1)" and "tok \<noteq> []"
    and "now_playing_endpoint e (NowPlaying tok) = NpResponse 200 (Some data)"
  shows "(item data = None \<longrightarrow>
            (\<exists>t. fst (getCurrentlyPlaying e w) = Some t
               \<and> artistName t = None \<and> albumArtUrl t = None))
     \<and> (item data = Some i \<and> artists i = Some as \<and> album i = None \<longrightarrow>
            (\<exists>t. fst (getCurrentlyPlaying e w) = Some t
               \<and> artistName t = Some (drop 2 (concat (map (\<lambda>a. '', '' @ artist_name a) as)))
               \<and> albumArtUrl t = None))
     \<and> (item data = Some i \<and> artists i = Some as \<and> album i = Some a
         \<and> album_images a = Some imgs \<longrightarrow>
            (\<exists>t. fst (getCurrentlyPlaying e w) = Some t
               \<and> artistName t = Some (drop 2 (concat (map (\<lambda>a. '', '' @ artist_name a) as)))
               \<and> albumArtUrl t = (case imgs of [] \<Rightarrow> None | im # _ \<Rightarrow> Some (url im))))
     \<and> (item data = Some i
         \<and> (artists i = None \<or> (\<exists>a. album i = Some a \<and> album_images a = None)) \<longrightarrow>
            fst (getCurrentlyPlaying e w) = None)"
proof -
  have eq: "fst (getCurrentlyPlaying e w) = trackOf data"
    by (rule getCurrentlyPlaying_ok [OF assms]) simp_all
  show ?thesis
    unfolding eq
    using trackOf_no_item [of data] trackOf_no_album [of data i as]
      trackOf_album [of data i as a imgs] trackOf_throws [of data i]
    by blast
qed

theorem getCurrentlyPlaying_track_fields_witness:
  "(\<exists>t. fst (getCurrentlyPlaying
            (exampleEnv TokenRejected
               (NpResponse 200 (Some (exampleBody [\<lparr>url = ''big.jpg''\<rparr>, \<lparr>url = ''small.jpg''\<rparr>])))
               SlackThrew)
            (exampleWorld exampleStorage 0)) = Some t
      \<and> artistName t = Some ''A, B'' \<and> albumArtUrl t = Some ''big.jpg'')
   \<and> (\<exists>t. fst (getCurrentlyPlaying
            (exampleEnv TokenRejected (NpResponse 200 (Some (exampleBody []))) SlackThrew)
            (exampleWorld exampleStorage 0)) = Some t
      \<and> artistName t = Some ''A, B'' \<and> albumArtUrl t = None)
   \<and> fst (getCurrentlyPlaying
            (exampleEnv TokenRejected (NpResponse 200 (Some exampleEpisode)) SlackThrew)
            (exampleWorld exampleStorage 0)) = None"
proof -
  have ne: "''a'' \<noteq> []" by simp
  have np: "now_playing_endpoint (exampleEnv TokenRejected (NpResponse 200 (Some d)) SlackThrew)
      (NowPlaying ''a'') = NpResponse 200 (Some d)" for d
    by (simp add: exampleEnv_def)
  show ?thesis
    using getCurrentlyPlaying_track_fields [OF refresh_exampleStorage ne np,
        of "exampleBody [\<lparr>url = ''big.jpg''\<rparr>, \<lparr>url = ''small.jpg''\<rparr>]"
           "\<lparr>item_name = Some ''Song'',
             artists = Some [\<lparr>artist_name = ''A''\<rparr>, \<lparr>artist_name = ''B''\<rparr>],
             album = Some (exampleAlbum [\<lparr>url = ''big.jpg''\<rparr>, \<lparr>url = ''small.jpg''\<rparr>]),
             item_external_urls = Some \<lparr>spotify = Some ''https://open.spotify.com/track/1''\<rparr>\<rparr>"
           "[\<lparr>artist_name = ''A''\<rparr>, \<lparr>artist_name = ''B''\<rparr>]"
           "exampleAlbum [\<lparr>url = ''big.jpg''\<rparr>, \<lparr>url = ''small.jpg''\<rparr>]"
           "[\<lparr>url = ''big.jpg''\<rparr>, \<lparr>url = ''small.jpg''\<rparr>]"]
      getCurrentlyPlaying_track_fields [OF refresh_exampleStorage ne np,
        of "exampleBody []"
           "\<lparr>item_name = Some ''Song'',
             artists = Some [\<lparr>artist_name = ''A''\<rparr>, \<lparr>artist_name = ''B''\<rparr>],
             album = Some (exampleAlbum []),
             item_external_urls = Some \<lparr>spotify = Some ''https://open.spotify.com/track/1''\<rparr>\<rparr>"
           "[\<lparr>artist_name = ''A''\<rparr>, \<lparr>artist_name = ''B''\<rparr>]"
           "exampleAlbum []" "[]"]
      getCurrentlyPlaying_track_fields [OF refresh_exampleStorage ne np,
        of exampleEpisode
           "\<lparr>item_name = Some ''Episode'', artists = None, album = None,
             item_external_urls = None\<rparr>"]
    by (simp add: exampleBody_def exampleAlbum_def exampleEpisode_def)
qed

subsection \<open>The routes\<close>

lemma refresh_None_storage:
  assumes "fst (refreshSpotifyToken e w) = None"
  shows "tokenStorage (snd (refreshSpotifyToken e w)) = tokenStorage w"
proof (cases "truthy (refreshToken (tokenStorage w))")
  case False
  with refresh_None_cases [OF assms] show ?thesis by (simp add: refresh_no_refresh_token)
next
  case True
  with refresh_None_cases [OF assms] obtain r l where "refreshSpotifyToken e w =
      (None, say l (issue (TokenRefresh (CLIENT_ID e) (CLIENT_SECRET e) r) (checked w)))"
    using refresh_not_ok [of w _ e] by blast
  then show ?thesis by simp
qed

lemma handler_is_callback: "is_callback req \<Longrightarrow> handler e req w = handler_callback e req w"
  by (simp add: handler_def is_callback_def)

lemma handler_is_set_token: "is_set_token req \<Longrightarrow> handler e req w = handler_set_token e req w"
  by (simp add: handler_def is_set_token_def)

lemma last_segment_examples [simp]:
  "last_segment ''/callback'' = ''callback''"
  "last_segment ''/set-token'' = ''set-token''"
  "last_segment ''/auth'' = ''auth''"
  "last_segment ''/'' = []"
  by (simp_all add: last_segment_def)

text \<open>
  Claim C10. On \<open>POST /set-token\<close> with a non-empty \<open>refreshToken\<close> in the body, the
  handler writes that token into the storage and then calls \<open>refreshSpotifyToken\<close>.
  When that call returns \<open>null\<close>, the answer is 400 with \<open>success: false\<close>, and the
  storage is the one before the request with the supplied refresh token in place of
  whatever was stored: nothing is rolled back.
\<close>

theorem set_token_keeps_unvalidated_token:
  assumes "is_set_token req" and "json_body req = JsonBody (Some rt)" and "rt \<noteq> []"
    and "fst (refreshSpotifyToken e
           (w\<lparr>tokenStorage := (tokenStorage w)\<lparr>refreshToken := Some rt\<rparr>\<rparr>)) = None"
  shows "fst (handler e req w) =
       \<lparr>http_status = 400, body = Failure ''Refresh token was set but could not be validated''\<rparr>
     \<and> tokenStorage (snd (handler e req w)) = (tokenStorage w)\<lparr>refreshToken := Some rt\<rparr>"
proof -
  let ?w1 = "w\<lparr>tokenStorage := (tokenStorage w)\<lparr>refreshToken := Some rt\<rparr>\<rparr>"
  obtain tok w2 where r: "refreshSpotifyToken e ?w1 = (tok, w2)" by (cases "refreshSpotifyToken e ?w1")
  with assms(4) have tok: "tok = None" by simp
  have "tokenStorage w2 = tokenStorage ?w1"
    using refresh_None_storage [OF assms(4)] r by simp
  then show ?thesis
    using assms(1-3) r tok
    by (simp add: handler_is_set_token handler_set_token_def truthy_def)
qed

theorem set_token_keeps_unvalidated_token_witness:
  "fst (handler (exampleEnv TokenRejected NpThrew SlackThrew)
          (exampleRequest ''POST'' ''/set-token'' None (JsonBody (Some ''new'')))
          (exampleWorld (initialTokenStorage\<lparr>refreshToken := Some ''old''\<rparr>) 0)) =
       \<lparr>http_status = 400, body = Failure ''Refresh token was set but could not be validated''\<rparr>
   \<and> refreshToken (tokenStorage (snd (handler (exampleEnv TokenRejected NpThrew SlackThrew)
          (exampleRequest ''POST'' ''/set-token'' None (JsonBody (Some ''new'')))
          (exampleWorld (initialTokenStorage\<lparr>refreshToken := Some ''old''\<rparr>) 0)))) = Some ''new''"
proof -
  have a: "is_set_token (exampleRequest ''POST'' ''/set-token'' None (JsonBody (Some ''new'')))"
    by (simp add: is_set_token_def exampleRequest_def)
  have b: "json_body (exampleRequest ''POST'' ''/set-token'' None (JsonBody (Some ''new'')))
      = JsonBody (Some ''new'')"
    by (simp add: exampleRequest_def)
  have c: "''new'' \<noteq> []" by simp
  have d: "fst (refreshSpotifyToken (exampleEnv TokenRejected NpThrew SlackThrew)
      ((exampleWorld (initialTokenStorage\<lparr>refreshToken := Some ''old''\<rparr>) 0)
         \<lparr>tokenStorage := (tokenStorage (exampleWorld (initialTokenStorage\<lparr>refreshToken := Some ''old''\<rparr>) 0))
            \<lparr>refreshToken := Some ''new''\<rparr>\<rparr>)) = None"
    by (simp add: refreshSpotifyToken_def truthy_def exampleWorld_def exampleEnv_def
        initialTokenStorage_def)
  show ?thesis
    using set_token_keeps_unvalidated_token [OF a b c d]
    by (simp add: exampleWorld_def)
qed

lemma refresh_codeVerifier:
  "codeVerifier (tokenStorage (snd (refreshSpotifyToken e w))) = codeVerifier (tokenStorage w)"
  by (simp add: refreshSpotifyToken_def Date_now_def Let_def
      split: option.splits token_reply.splits prod.splits)

lemma getCurrentlyPlaying_codeVerifier:
  "codeVerifier (tokenStorage (snd (getCurrentlyPlaying e w))) = codeVerifier (tokenStorage w)"
proof -
  obtain tok w1 where r: "refreshSpotifyToken e w = (tok, w1)" by (cases "refreshSpotifyToken e w")
  then have "codeVerifier (tokenStorage w1) = codeVerifier (tokenStorage w)"
    using refresh_codeVerifier [of e w] by simp
  then show ?thesis using r
    by (simp add: getCurrentlyPlaying_def Let_def
        split: option.splits list.splits np_reply.splits)
qed

lemma updateSlackStatus_storage:
  "tokenStorage (snd (updateSlackStatus e st tok w)) = tokenStorage w"
  by (simp add: updateSlackStatus_def Let_def split: option.splits slack_reply.splits bool.splits)

lemma updateSlackPhoto_storage:
  "tokenStorage (snd (updateSlackPhoto e img tok w)) = tokenStorage w"
  by (simp add: updateSlackPhoto_def Let_def split: option.splits slack_reply.splits bool.splits)

lemma updateStatus_storage:
  "tokenStorage (snd (updateStatus e t w)) = tokenStorage w"
  by (simp add: updateStatus_def updateSlackStatus_storage Let_def)

lemma handler_default_codeVerifier:
  "codeVerifier (tokenStorage (snd (handler_default e w))) = codeVerifier (tokenStorage w)"
proof -
  let ?w0 = "say (Log ''Spotify tracker function called'') w"
  obtain ti w1 where g: "getCurrentlyPlaying e ?w0 = (ti, w1)"
    by (cases "getCurrentlyPlaying e ?w0")
  then have v: "codeVerifier (tokenStorage w1) = codeVerifier (tokenStorage w)"
    using getCurrentlyPlaying_codeVerifier [of e ?w0] by simp
  show ?thesis
  proof (cases ti)
    case None
    obtain s w2 where u: "updateStatus e notPlaying w1 = (s, w2)"
      by (cases "updateStatus e notPlaying w1")
    then have "tokenStorage w2 = tokenStorage w1" using updateStatus_storage [of e notPlaying w1] by simp
    then show ?thesis using g None u v by (simp add: handler_default_def)
  next
    case (Some t)
    obtain s w2 where u: "updateStatus e t w1 = (s, w2)" by (cases "updateStatus e t w1")
    then have s2: "tokenStorage w2 = tokenStorage w1" using updateStatus_storage [of e t w1] by simp
    obtain p w3 where ph: "updateSlackPhoto e (albumArtUrl t) (SLACK_TOKEN e) w2 = (p, w3)"
      by (cases "updateSlackPhoto e (albumArtUrl t) (SLACK_TOKEN e) w2")
    then have s3: "tokenStorage w3 = tokenStorage w2"
      using updateSlackPhoto_storage [of e "albumArtUrl t" "SLACK_TOKEN e" w2] by simp
    show ?thesis using g Some u ph v s2 s3 by (simp add: handler_default_def)
  qed
qed

lemma handler_set_token_codeVerifier:
  "codeVerifier (tokenStorage (snd (handler_set_token e req w))) = codeVerifier (tokenStorage w)"
proof (cases "json_body req")
  case JsonThrew
  then show ?thesis by (simp add: handler_set_token_def)
next
  case (JsonBody rt)
  let ?w1 = "w\<lparr>tokenStorage := (tokenStorage w)\<lparr>refreshToken := rt\<rparr>\<rparr>"
  obtain tok w2 where r: "refreshSpotifyToken e ?w1 = (tok, w2)"
    by (cases "refreshSpotifyToken e ?w1")
  then have "codeVerifier (tokenStorage w2) = codeVerifier (tokenStorage w)"
    using refresh_codeVerifier [of e ?w1] by simp
  then show ?thesis using JsonBody r by (simp add: handler_set_token_def)
qed

lemma generateRandomString_length:
  "\<forall>f \<in> sset rnd. unit_draw f \<Longrightarrow> length (fst (generateRandomString n rnd)) = n"
proof (induction n arbitrary: rnd)
  case 0
  then show ?case by simp
next
  case (Suc n)
  have "shd rnd \<in> sset rnd" by (rule shd_sset)
  then have "unit_draw (shd rnd)" using Suc.prems by (rule bspec [rotated])
  moreover have "0 < length possible" by (simp add: possible_def)
  ultimately have "0 \<le> shd rnd (length possible) \<and> shd rnd (length possible) < int (length possible)"
    by (rule unit_drawD)
  then have "length (charAt possible (shd rnd (length possible))) = 1"
    by (simp add: charAt_def)
  moreover have "\<forall>f \<in> sset (stl rnd). unit_draw f"
    using Suc.prems by (metis stl_sset)
  then have "length (fst (generateRandomString n (stl rnd))) = n" by (rule Suc.IH)
  ultimately show ?case by (auto simp add: Let_def split: prod.splits)
qed

lemma handler_auth_codeVerifier:
  assumes "\<forall>f \<in> sset (random w). unit_draw f"
  shows "truthy (codeVerifier (tokenStorage (snd (handler_auth e w))))"
proof -
  have "length (fst (generateRandomString 64 (random w))) = 64"
    by (rule generateRandomString_length [OF assms])
  then have "fst (generateRandomString 64 (random w)) \<noteq> []" by auto
  then show ?thesis
    by (auto simp add: handler_auth_def getAuthorizationUrl_def truthy_def Let_def split: prod.splits)
qed

lemma handler_callback_cases:
  "(\<not> truthy (code_param req) \<longrightarrow>
      handler_callback e req w =
        (\<lparr>http_status = 400, body = Failure ''No authorization code provided''\<rparr>, w))
   \<and> (truthy (code_param req) \<and> \<not> truthy (codeVerifier (tokenStorage w)) \<longrightarrow>
      handler_callback e req w =
        (\<lparr>http_status = 400,
          body = Failure ''No code verifier found. Please restart the authentication flow.''\<rparr>, w))"
  by (auto simp add: handler_callback_def truthy_def split: option.splits list.splits)

lemma handler_callback_exchange:
  assumes "code_param req = Some c" and "c \<noteq> []"
    and "codeVerifier (tokenStorage w) = Some v" and "v \<noteq> []"
  shows "handler_callback e req w =
     (case token_endpoint e (TokenExchange (CLIENT_ID e) (CLIENT_SECRET e) c (REDIRECT_URI e) v) of
        TokenOk d \<Rightarrow>
          (\<lparr>http_status = 200,
            body = Success ''Authentication successful! You can now close this window.''\<rparr>,
           w\<lparr>fetched := fetched w @ [TokenExchange (CLIENT_ID e) (CLIENT_SECRET e) c (REDIRECT_URI e) v],
             clock := stl (clock w),
             tokenStorage := (tokenStorage w)
               \<lparr>accessToken := Some (access_token d), refreshToken := refresh_token d,
                tokenExpiry := double_add e (shd (clock w)) (double_mul e (expires_in d) 1000), codeVerifier := None\<rparr>\<rparr>)
      | TokenThrew \<Rightarrow>
          (\<lparr>http_status = 500, body = Failure ''Failed to exchange authorization code for tokens''\<rparr>,
           say (Error ''Failed to exchange code for token:'')
             (issue (TokenExchange (CLIENT_ID e) (CLIENT_SECRET e) c (REDIRECT_URI e) v) w))
      | TokenRejected \<Rightarrow>
          (\<lparr>http_status = 500, body = Failure ''Failed to exchange authorization code for tokens''\<rparr>,
           say (Error ''Error exchanging code for token:'')
             (issue (TokenExchange (CLIENT_ID e) (CLIENT_SECRET e) c (REDIRECT_URI e) v) w)))"
  using assms
  by (cases c; cases v)
    (simp_all add: handler_callback_def exchangeCodeForToken_def Date_now_def issue_def Let_def
      split: token_reply.splits)


text \<open>
  Claim C4. On the \<open>/callback\<close> route: with no pending verifier the answer is 400 and
  the world is untouched (no request is issued), the error being the missing verifier
  when a code was supplied; when the exchange succeeds the answer is 200 and the
  storage holds the issued tokens, the expiry computed from the clock, and \<open>null\<close>
  for the verifier; when the exchange throws or is rejected the answer is 500, the
  storage is unchanged, so the verifier is still pending, and the exchange was the
  only request. Over all routes of the handler, with random readings in \<open>[0, 1)\<close>,
  a pending verifier is gone after a request only if that request was a callback
  whose exchange succeeded.
\<close>

theorem callback_verifier_lifecycle:
  "(is_callback req \<and> \<not> truthy (codeVerifier (tokenStorage w)) \<longrightarrow>
      http_status (fst (handler e req w)) = 400 \<and> snd (handler e req w) = w
      \<and> (truthy (code_param req) \<longrightarrow>
           body (fst (handler e req w)) =
             Failure ''No code verifier found. Please restart the authentication flow.''))
   \<and> (is_callback req \<and> code_param req = Some c \<and> c \<noteq> []
       \<and> codeVerifier (tokenStorage w) = Some v \<and> v \<noteq> []
       \<and> token_endpoint e (TokenExchange (CLIENT_ID e) (CLIENT_SECRET e) c (REDIRECT_URI e) v)
           = TokenOk d \<longrightarrow>
      http_status (fst (handler e req w)) = 200
      \<and> tokenStorage (snd (handler e req w)) =
          (tokenStorage w)
            \<lparr>accessToken := Some (access_token d), refreshToken := refresh_token d,
             tokenExpiry := double_add e (shd (clock w)) (double_mul e (expires_in d) 1000), codeVerifier := None\<rparr>)
   \<and> (is_callback req \<and> code_param req = Some c \<and> c \<noteq> []
       \<and> codeVerifier (tokenStorage w) = Some v \<and> v \<noteq> []
       \<and> (token_endpoint e (TokenExchange (CLIENT_ID e) (CLIENT_SECRET e) c (REDIRECT_URI e) v)
             = TokenThrew
          \<or> token_endpoint e (TokenExchange (CLIENT_ID e) (CLIENT_SECRET e) c (REDIRECT_URI e) v)
             = TokenRejected) \<longrightarrow>
      http_status (fst (handler e req w)) = 500
      \<and> tokenStorage (snd (handler e req w)) = tokenStorage w
      \<and> fetched (snd (handler e req w)) =
          fetched w @ [TokenExchange (CLIENT_ID e) (CLIENT_SECRET e) c (REDIRECT_URI e) v])
   \<and> ((\<forall>f \<in> sset (random w). unit_draw f)
       \<and> truthy (codeVerifier (tokenStorage w))
       \<and> \<not> truthy (codeVerifier (tokenStorage (snd (handler e req w)))) \<longrightarrow>
      is_callback req
      \<and> (\<exists>c' v' d'. code_param req = Some c' \<and> c' \<noteq> []
            \<and> codeVerifier (tokenStorage w) = Some v'
            \<and> token_endpoint e
                 (TokenExchange (CLIENT_ID e) (CLIENT_SECRET e) c' (REDIRECT_URI e) v') = TokenOk d'))"
proof -
  have p1: "http_status (fst (handler e req w)) = 400 \<and> snd (handler e req w) = w
      \<and> (truthy (code_param req) \<longrightarrow>
           body (fst (handler e req w)) =
             Failure ''No code verifier found. Please restart the authentication flow.'')"
    if a: "is_callback req \<and> \<not> truthy (codeVerifier (tokenStorage w))"
  proof -
    from a have h: "handler e req w = handler_callback e req w" by (simp add: handler_is_callback)
    show ?thesis
      using a handler_callback_cases [of req e w]
      by (cases "truthy (code_param req)") (simp_all add: h)
  qed
  have p2: "http_status (fst (handler e req w)) = 200
      \<and> tokenStorage (snd (handler e req w)) =
          (tokenStorage w)
            \<lparr>accessToken := Some (access_token d), refreshToken := refresh_token d,
             tokenExpiry := double_add e (shd (clock w)) (double_mul e (expires_in d) 1000), codeVerifier := None\<rparr>"
    if a: "is_callback req \<and> code_param req = Some c \<and> c \<noteq> []
       \<and> codeVerifier (tokenStorage w) = Some v \<and> v \<noteq> []
       \<and> token_endpoint e (TokenExchange (CLIENT_ID e) (CLIENT_SECRET e) c (REDIRECT_URI e) v)
           = TokenOk d"
  proof -
    from a have h: "handler e req w = handler_callback e req w" by (simp add: handler_is_callback)
    show ?thesis using a handler_callback_exchange [of req c w v e] by (simp add: h)
  qed
  have p3: "http_status (fst (handler e req w)) = 500
      \<and> tokenStorage (snd (handler e req w)) = tokenStorage w
      \<and> fetched (snd (handler e req w)) =
          fetched w @ [TokenExchange (CLIENT_ID e) (CLIENT_SECRET e) c (REDIRECT_URI e) v]"
    if a: "is_callback req \<and> code_param req = Some c \<and> c \<noteq> []
       \<and> codeVerifier (tokenStorage w) = Some v \<and> v \<noteq> []
       \<and> (token_endpoint e (TokenExchange (CLIENT_ID e) (CLIENT_SECRET e) c (REDIRECT_URI e) v)
             = TokenThrew
          \<or> token_endpoint e (TokenExchange (CLIENT_ID e) (CLIENT_SECRET e) c (REDIRECT_URI e) v)
             = TokenRejected)"
  proof -
    from a have h: "handler e req w = handler_callback e req w" by (simp add: handler_is_callback)
    show ?thesis using a handler_callback_exchange [of req c w v e] by (auto simp add: h)
  qed
  have p4: "is_callback req
      \<and> (\<exists>c' v' d'. code_param req = Some c' \<and> c' \<noteq> []
            \<and> codeVerifier (tokenStorage w) = Some v'
            \<and> token_endpoint e
                 (TokenExchange (CLIENT_ID e) (CLIENT_SECRET e) c' (REDIRECT_URI e) v') = TokenOk d')"
    if a: "(\<forall>f \<in> sset (random w). unit_draw f)
       \<and> truthy (codeVerifier (tokenStorage w))
       \<and> \<not> truthy (codeVerifier (tokenStorage (snd (handler e req w))))"
  proof -
    from a have range: "\<forall>f \<in> sset (random w). unit_draw f"
      and before: "truthy (codeVerifier (tokenStorage w))"
      and after: "\<not> truthy (codeVerifier (tokenStorage (snd (handler e req w))))"
      by simp_all
    have no_options: "req_method req \<noteq> ''OPTIONS''"
      using before after by (auto simp add: handler_def)
    have no_auth: "last_segment (pathname req) \<noteq> ''auth''"
      using after no_options handler_auth_codeVerifier [OF range, of e]
      by (auto simp add: handler_def)
    have cb: "last_segment (pathname req) = ''callback''"
    proof (rule ccontr)
      assume n: "last_segment (pathname req) \<noteq> ''callback''"
      have "codeVerifier (tokenStorage (snd (handler e req w))) = codeVerifier (tokenStorage w)"
        using no_options no_auth n
        by (simp add: handler_def handler_set_token_codeVerifier handler_default_codeVerifier)
      with before after show False by simp
    qed
    with no_options have isc: "is_callback req" by (simp add: is_callback_def)
    then have h: "handler e req w = handler_callback e req w" by (rule handler_is_callback)
    have code: "truthy (code_param req)"
    proof (rule ccontr)
      assume "\<not> truthy (code_param req)"
      then have "snd (handler e req w) = w"
        using handler_callback_cases [of req e w] by (simp add: h)
      with before after show False by simp
    qed
    then obtain c' where c': "code_param req = Some c'" "c' \<noteq> []"
      by (auto simp: truthy_def split: option.splits)
    from before obtain v' where v': "codeVerifier (tokenStorage w) = Some v'" "v' \<noteq> []"
      by (auto simp: truthy_def split: option.splits)
    obtain reply where reply: "token_endpoint e
        (TokenExchange (CLIENT_ID e) (CLIENT_SECRET e) c' (REDIRECT_URI e) v') = reply"
      by simp
    have "\<exists>d'. reply = TokenOk d'"
    proof (cases reply)
      case TokenThrew
      then have "tokenStorage (snd (handler e req w)) = tokenStorage w"
        using handler_callback_exchange [OF c' v', of e] reply by (simp add: h)
      with before after show ?thesis by simp
    next
      case TokenRejected
      then have "tokenStorage (snd (handler e req w)) = tokenStorage w"
        using handler_callback_exchange [OF c' v', of e] reply by (simp add: h)
      with before after show ?thesis by simp
    qed simp
    with c' v' reply isc show ?thesis by blast
  qed
  from p1 p2 p3 p4 show ?thesis by blast
qed


theorem callback_verifier_lifecycle_witness:
  "http_status (fst (handler (exampleEnv TokenRejected NpThrew SlackThrew)
       (exampleRequest ''GET'' ''/callback'' (Some ''c'') JsonThrew)
       (exampleWorld initialTokenStorage 0))) = 400
   \<and> snd (handler (exampleEnv TokenRejected NpThrew SlackThrew)
       (exampleRequest ''GET'' ''/callback'' (Some ''c'') JsonThrew)
       (exampleWorld initialTokenStorage 0)) = exampleWorld initialTokenStorage 0
   \<and> http_status (fst (handler
       (exampleEnv (TokenOk \<lparr>access_token = ''new'', refresh_token = Some ''r'', expires_in = 3600\<rparr>)
          NpThrew SlackThrew)
       (exampleRequest ''GET'' ''/callback'' (Some ''c'') JsonThrew)
       (exampleWorld (initialTokenStorage\<lparr>codeVerifier := Some ''v''\<rparr>) 5))) = 200
   \<and> tokenStorage (snd (handler
       (exampleEnv (TokenOk \<lparr>access_token = ''new'', refresh_token = Some ''r'', expires_in = 3600\<rparr>)
          NpThrew SlackThrew)
       (exampleRequest ''GET'' ''/callback'' (Some ''c'') JsonThrew)
       (exampleWorld (initialTokenStorage\<lparr>codeVerifier := Some ''v''\<rparr>) 5)))
     = \<lparr>accessToken = Some ''new'', refreshToken = Some ''r'', tokenExpiry = 3600005,
        codeVerifier = None, lastPlayedTrack = None\<rparr>
   \<and> http_status (fst (handler (exampleEnv TokenRejected NpThrew SlackThrew)
       (exampleRequest ''GET'' ''/callback'' (Some ''c'') JsonThrew)
       (exampleWorld (initialTokenStorage\<lparr>codeVerifier := Some ''v''\<rparr>) 5))) = 500
   \<and> codeVerifier (tokenStorage (snd (handler (exampleEnv TokenRejected NpThrew SlackThrew)
       (exampleRequest ''GET'' ''/callback'' (Some ''c'') JsonThrew)
       (exampleWorld (initialTokenStorage\<lparr>codeVerifier := Some ''v''\<rparr>) 5)))) = Some ''v''
   \<and> is_callback (exampleRequest ''GET'' ''/callback'' (Some ''c'') JsonThrew)"
  using callback_verifier_lifecycle
      [of "exampleRequest ''GET'' ''/callback'' (Some ''c'') JsonThrew"
          "exampleWorld initialTokenStorage 0"
          "exampleEnv TokenRejected NpThrew SlackThrew"]
    callback_verifier_lifecycle
      [of "exampleRequest ''GET'' ''/callback'' (Some ''c'') JsonThrew"
          "exampleWorld (initialTokenStorage\<lparr>codeVerifier := Some ''v''\<rparr>) 5"
          "exampleEnv (TokenOk \<lparr>access_token = ''new'', refresh_token = Some ''r'', expires_in = 3600\<rparr>)
             NpThrew SlackThrew"
          "''c''" "''v''"
          "\<lparr>access_token = ''new'', refresh_token = Some ''r'', expires_in = 3600\<rparr>"]
    callback_verifier_lifecycle
      [of "exampleRequest ''GET'' ''/callback'' (Some ''c'') JsonThrew"
          "exampleWorld (initialTokenStorage\<lparr>codeVerifier := Some ''v''\<rparr>) 5"
          "exampleEnv TokenRejected NpThrew SlackThrew" "''c''" "''v''"]
  by (simp add: is_callback_def exampleRequest_def exampleWorld_def exampleEnv_def
      initialTokenStorage_def truthy_def)

text \<open>
  Claim C6, as stated, fails when the issued access token is the empty string: the
  callback succeeds and stores it with an expiry that is in the future, yet the call
  that follows takes the token for absent and issues a refresh request; here the
  refresh is rejected and the call returns \<open>null\<close>.
\<close>

theorem callback_then_refresh_counterexample:
  "http_status (fst (handler
       ((exampleEnv TokenRejected NpThrew SlackThrew)
          \<lparr>token_endpoint := exchangeOnly
              \<lparr>access_token = [], refresh_token = Some ''r'', expires_in = 3600\<rparr>\<rparr>)
       (exampleRequest ''GET'' ''/callback'' (Some ''c'') JsonThrew)
       (exampleWorld (initialTokenStorage\<lparr>codeVerifier := Some ''v''\<rparr>) 5))) = 200
   \<and> tokenStorage (snd (handler
       ((exampleEnv TokenRejected NpThrew SlackThrew)
          \<lparr>token_endpoint := exchangeOnly
              \<lparr>access_token = [], refresh_token = Some ''r'', expires_in = 3600\<rparr>\<rparr>)
       (exampleRequest ''GET'' ''/callback'' (Some ''c'') JsonThrew)
       (exampleWorld (initialTokenStorage\<lparr>codeVerifier := Some ''v''\<rparr>) 5)))
     = \<lparr>accessToken = Some [], refreshToken = Some ''r'', tokenExpiry = 3600005,
        codeVerifier = None, lastPlayedTrack = None\<rparr>
   \<and> shd (clock (snd (handler
       ((exampleEnv TokenRejected NpThrew SlackThrew)
          \<lparr>token_endpoint := exchangeOnly
              \<lparr>access_token = [], refresh_token = Some ''r'', expires_in = 3600\<rparr>\<rparr>)
       (exampleRequest ''GET'' ''/callback'' (Some ''c'') JsonThrew)
       (exampleWorld (initialTokenStorage\<lparr>codeVerifier := Some ''v''\<rparr>) 5)))) = 5
   \<and> fst (refreshSpotifyToken
       ((exampleEnv TokenRejected NpThrew SlackThrew)
          \<lparr>token_endpoint := exchangeOnly
              \<lparr>access_token = [], refresh_token = Some ''r'', expires_in = 3600\<rparr>\<rparr>)
       (snd (handler
         ((exampleEnv TokenRejected NpThrew SlackThrew)
            \<lparr>token_endpoint := exchangeOnly
                \<lparr>access_token = [], refresh_token = Some ''r'', expires_in = 3600\<rparr>\<rparr>)
         (exampleRequest ''GET'' ''/callback'' (Some ''c'') JsonThrew)
         (exampleWorld (initialTokenStorage\<lparr>codeVerifier := Some ''v''\<rparr>) 5)))) = None
   \<and> fetched (snd (refreshSpotifyToken
       ((exampleEnv TokenRejected NpThrew SlackThrew)
          \<lparr>token_endpoint := exchangeOnly
              \<lparr>access_token = [], refresh_token = Some ''r'', expires_in = 3600\<rparr>\<rparr>)
       (snd (handler
         ((exampleEnv TokenRejected NpThrew SlackThrew)
            \<lparr>token_endpoint := exchangeOnly
                \<lparr>access_token = [], refresh_token = Some ''r'', expires_in = 3600\<rparr>\<rparr>)
         (exampleRequest ''GET'' ''/callback'' (Some ''c'') JsonThrew)
         (exampleWorld (initialTokenStorage\<lparr>codeVerifier := Some ''v''\<rparr>) 5)))))
     = [TokenExchange ''id'' ''secret'' ''c'' ''http://localhost:8000/callback'' ''v'',
        TokenRefresh ''id'' ''secret'' ''r'']"
  by (simp add: handler_def handler_callback_def exchangeCodeForToken_def refreshSpotifyToken_def
      exchangeOnly_def exampleRequest_def exampleWorld_def exampleEnv_def initialTokenStorage_def
      REDIRECT_URI_def truthy_def Date_now_def issue_def say_def)

text \<open>
  Claim C6, amended. After a callback whose exchange succeeded with a non-empty access
  token, a call of \<open>refreshSpotifyToken\<close> whose reading of the clock is strictly before
  the stored expiry (the double sum of the reading at the exchange and the reported
  lifetime in milliseconds) returns the issued access token and issues no request.
\<close>

theorem callback_then_refresh:
  assumes "is_callback req" and "code_param req = Some c" and "c \<noteq> []"
    and "codeVerifier (tokenStorage w) = Some v" and "v \<noteq> []"
    and "token_endpoint e (TokenExchange (CLIENT_ID e) (CLIENT_SECRET e) c (REDIRECT_URI e) v)
           = TokenOk d"
    and "access_token d \<noteq> []"
    and "shd (stl (clock w)) < double_add e (shd (clock w)) (double_mul e (expires_in d) 1000)"
  shows "fst (refreshSpotifyToken e' (snd (handler e req w))) = Some (access_token d)
     \<and> fetched (snd (refreshSpotifyToken e' (snd (handler e req w))))
         = fetched (snd (handler e req w))"
proof -
  have h: "handler e req w = handler_callback e req w"
    by (rule handler_is_callback [OF assms(1)])
  define w' where "w' = snd (handler e req w)"
  have w': "w' = w\<lparr>fetched := fetched w
                 @ [TokenExchange (CLIENT_ID e) (CLIENT_SECRET e) c (REDIRECT_URI e) v],
             clock := stl (clock w),
             tokenStorage := (tokenStorage w)
               \<lparr>accessToken := Some (access_token d), refreshToken := refresh_token d,
                tokenExpiry := double_add e (shd (clock w)) (double_mul e (expires_in d) 1000), codeVerifier := None\<rparr>\<rparr>"
    unfolding w'_def h using handler_callback_exchange [OF assms(2-5), of e] assms(6) by simp
  have "usable w'" using assms(7,8) by (simp add: w' usable_def truthy_def)
  from refresh_usable [OF this, of e']
  have "refreshSpotifyToken e' w' = (accessToken (tokenStorage w'), w'\<lparr>clock := stl (clock w')\<rparr>)" .
  then have "fst (refreshSpotifyToken e' w') = Some (access_token d)
     \<and> fetched (snd (refreshSpotifyToken e' w')) = fetched w'"
    by (simp add: w')
  then show ?thesis by (simp add: w'_def)
qed

theorem callback_then_refresh_witness:
  "fst (refreshSpotifyToken (exampleEnv TokenRejected NpThrew SlackThrew)
     (snd (handler
       (exampleEnv (TokenOk \<lparr>access_token = ''new'', refresh_token = Some ''r'', expires_in = 3600\<rparr>)
          NpThrew SlackThrew)
       (exampleRequest ''GET'' ''/callback'' (Some ''c'') JsonThrew)
       (exampleWorld (initialTokenStorage\<lparr>codeVerifier := Some ''v''\<rparr>) 5)))) = Some ''new''"
proof -
  have a: "is_callback (exampleRequest ''GET'' ''/callback'' (Some ''c'') JsonThrew)"
    by (simp add: is_callback_def exampleRequest_def)
  have b: "code_param (exampleRequest ''GET'' ''/callback'' (Some ''c'') JsonThrew) = Some ''c''"
    by (simp add: exampleRequest_def)
  have c: "''c'' \<noteq> []" "''v'' \<noteq> []" by simp_all
  have d: "codeVerifier (tokenStorage
      (exampleWorld (initialTokenStorage\<lparr>codeVerifier := Some ''v''\<rparr>) 5)) = Some ''v''"
    by (simp add: exampleWorld_def)
  show ?thesis
    using callback_then_refresh [OF a b c(1) d c(2),
        of "exampleEnv (TokenOk \<lparr>access_token = ''new'', refresh_token = Some ''r'', expires_in = 3600\<rparr>)
              NpThrew SlackThrew"
           "\<lparr>access_token = ''new'', refresh_token = Some ''r'', expires_in = 3600\<rparr>"
           "exampleEnv TokenRejected NpThrew SlackThrew"]
    by (simp add: exampleWorld_def exampleEnv_def)
qed

subsection \<open>The schedulers\<close>

lemma handler_is_default: "is_default req \<Longrightarrow> handler e req w = handler_default e w"
  by (auto simp add: handler_def is_default_def)

lemma updateStatus_not_playing:
  assumes "\<not> isPlaying t" and "SLACK_TOKEN e \<noteq> []"
    and "slack_api e (ProfileSet (SLACK_TOKEN e) [] []) = SlackBody True"
  shows "updateStatus e t w =
     (True, say (Log ''Successfully updated status to:  '')
              (issue (ProfileSet (SLACK_TOKEN e) [] []) w))"
  using assms by (simp add: updateStatus_def updateSlackStatus_def)

text \<open>
  Claim C1, as stated, fails: with a token in hand and the now-playing endpoint
  answering 204, the poll returns the not-playing state, and the timer's tick
  \<open>updateSpotifyStatus\<close> writes its console line and returns. The now-playing request
  is the only request of the tick: the status is not published.
\<close>

theorem updateSpotifyStatus_not_playing_counterexample:
  "fst (getCurrentlyPlaying (exampleEnv TokenRejected (NpResponse 204 None) (SlackBody True))
          (exampleWorld (exampleStorage\<lparr>refreshToken := Some ''r''\<rparr>) 0))
     = Some \<lparr>isPlaying = False, trackName = None, artistName = None, albumName = None,
             trackUrl = None, albumArtUrl = None, albumArt = None\<rparr>
   \<and> fetched (updateSpotifyStatus (exampleEnv TokenRejected (NpResponse 204 None) (SlackBody True))
          (exampleWorld (exampleStorage\<lparr>refreshToken := Some ''r''\<rparr>) 0))
     = [NowPlaying ''a'']
   \<and> console (updateSpotifyStatus (exampleEnv TokenRejected (NpResponse 204 None) (SlackBody True))
          (exampleWorld (exampleStorage\<lparr>refreshToken := Some ''r''\<rparr>) 0))
     = [Log ''token'', Log ''response'', Log ''No track currently playing.'']"
  by (simp add: updateSpotifyStatus_def getCurrentlyPlaying_def refreshSpotifyToken_def
      notPlaying_def exampleStorage_def exampleWorld_def exampleEnv_def initialTokenStorage_def
      truthy_def Date_now_def issue_def say_def)

text \<open>
  Claim C1, amended. When the poll returns a state that is not playing (as on 204):
  the timer's tick \<open>updateSpotifyStatus\<close> adds the console line
  \<open>No track currently playing.\<close> to the world the poll left and does nothing else, so
  the publisher is not called; the default route of the handler, with a Slack token
  configured and the platform accepting the update, publishes the empty status text and
  emoji, fetches no image, and answers 200 with status \<open>true\<close> and photo \<open>false\<close>.
\<close>

theorem not_playing_tick_and_route:
  "(truthy (refreshToken (tokenStorage w)) \<and> getCurrentlyPlaying e w = (Some t, w1)
      \<and> \<not> isPlaying t \<longrightarrow>
      updateSpotifyStatus e w = say (Log ''No track currently playing.'') w1)
   \<and> (is_default req
       \<and> getCurrentlyPlaying e (say (Log ''Spotify tracker function called'') w) = (Some t, w1)
       \<and> \<not> isPlaying t \<and> SLACK_TOKEN e \<noteq> []
       \<and> slack_api e (ProfileSet (SLACK_TOKEN e) [] []) = SlackBody True \<longrightarrow>
      fst (handler e req w) = \<lparr>http_status = 200, body = Tracked t True False\<rparr>
      \<and> fetched (snd (handler e req w)) = fetched w1 @ [ProfileSet (SLACK_TOKEN e) [] []])"
proof -
  have tick: "updateSpotifyStatus e w = say (Log ''No track currently playing.'') w1"
    if "truthy (refreshToken (tokenStorage w)) \<and> getCurrentlyPlaying e w = (Some t, w1)
      \<and> \<not> isPlaying t"
    using that by (simp add: updateSpotifyStatus_def)
  have route: "fst (handler e req w) = \<lparr>http_status = 200, body = Tracked t True False\<rparr>
      \<and> fetched (snd (handler e req w)) = fetched w1 @ [ProfileSet (SLACK_TOKEN e) [] []]"
    if a: "is_default req
       \<and> getCurrentlyPlaying e (say (Log ''Spotify tracker function called'') w) = (Some t, w1)
       \<and> \<not> isPlaying t \<and> SLACK_TOKEN e \<noteq> []
       \<and> slack_api e (ProfileSet (SLACK_TOKEN e) [] []) = SlackBody True"
  proof -
    from a have h: "handler e req w = handler_default e w" by (simp add: handler_is_default)
    from a have "updateStatus e t w1
        = (True, say (Log ''Successfully updated status to:  '')
                   (issue (ProfileSet (SLACK_TOKEN e) [] []) w1))"
      using updateStatus_not_playing [of t e w1] by blast
    with a show ?thesis by (simp add: h handler_default_def)
  qed
  from tick route show ?thesis by blast
qed

theorem not_playing_tick_and_route_witness:
  "updateSpotifyStatus (exampleEnv TokenRejected (NpResponse 204 None) (SlackBody True))
       (exampleWorld (exampleStorage\<lparr>refreshToken := Some ''r''\<rparr>) 0)
     = say (Log ''No track currently playing.'')
         (snd (getCurrentlyPlaying (exampleEnv TokenRejected (NpResponse 204 None) (SlackBody True))
            (exampleWorld (exampleStorage\<lparr>refreshToken := Some ''r''\<rparr>) 0)))
   \<and> fst (handler (exampleEnv TokenRejected (NpResponse 204 None) (SlackBody True))
       (exampleRequest ''GET'' ''/'' None JsonThrew)
       (exampleWorld (exampleStorage\<lparr>refreshToken := Some ''r''\<rparr>) 0))
     = \<lparr>http_status = 200, body = Tracked notPlaying True False\<rparr>
   \<and> fetched (snd (handler (exampleEnv TokenRejected (NpResponse 204 None) (SlackBody True))
       (exampleRequest ''GET'' ''/'' None JsonThrew)
       (exampleWorld (exampleStorage\<lparr>refreshToken := Some ''r''\<rparr>) 0)))
     = [NowPlaying ''a'', ProfileSet ''xoxp'' [] []]"
proof -
  let ?e = "exampleEnv TokenRejected (NpResponse 204 None) (SlackBody True)"
  let ?w = "exampleWorld (exampleStorage\<lparr>refreshToken := Some ''r''\<rparr>) 0"
  have g: "getCurrentlyPlaying ?e w' = (Some notPlaying, snd (getCurrentlyPlaying ?e w'))"
    if "w' = ?w \<or> w' = say (Log ''Spotify tracker function called'') ?w" for w'
    using that
    by (auto simp add: getCurrentlyPlaying_def refreshSpotifyToken_def
      exampleStorage_def exampleWorld_def exampleEnv_def initialTokenStorage_def
      truthy_def Date_now_def issue_def say_def)
  have f: "fetched (snd (getCurrentlyPlaying ?e (say (Log ''Spotify tracker function called'') ?w)))
      = [NowPlaying ''a'']"
    by (simp add: getCurrentlyPlaying_def refreshSpotifyToken_def
      exampleStorage_def exampleWorld_def exampleEnv_def initialTokenStorage_def
      truthy_def Date_now_def issue_def say_def)
  have d: "is_default (exampleRequest ''GET'' ''/'' None JsonThrew)"
    by (simp add: is_default_def exampleRequest_def)
  have m: "truthy (refreshToken (tokenStorage ?w))" "\<not> isPlaying notPlaying"
    "SLACK_TOKEN ?e \<noteq> []" "slack_api ?e (ProfileSet (SLACK_TOKEN ?e) [] []) = SlackBody True"
    by (simp_all add: truthy_def exampleWorld_def exampleStorage_def exampleEnv_def notPlaying_def)
  show ?thesis
    using not_playing_tick_and_route [of ?w ?e notPlaying "snd (getCurrentlyPlaying ?e ?w)"
        "exampleRequest ''GET'' ''/'' None JsonThrew"]
      not_playing_tick_and_route [of ?w ?e notPlaying
        "snd (getCurrentlyPlaying ?e (say (Log ''Spotify tracker function called'') ?w))"
        "exampleRequest ''GET'' ''/'' None JsonThrew"]
      g [of ?w] g [of "say (Log ''Spotify tracker function called'') ?w"] f d m
    by (simp add: exampleEnv_def)
qed


lemma cycleProfile_empty:
  "images = [] \<or> statuses = [] \<Longrightarrow>
   cycleProfile e images statuses r w =
     Some (r, say (Warn ''No images or statuses available for cycling.'') w)"
  by (simp add: cycleProfile_def)

lemma cycleProfile_Some:
  assumes "cycleProfile e images statuses r w = Some (r', w')"
    and "images \<noteq> []" and "statuses \<noteq> []"
  shows "r' = r\<lparr>currentStatusIndex := (currentStatusIndex r + 1) mod length statuses\<rparr>"
  using assms
  by (auto simp add: cycleProfile_def Let_def split: option.splits prod.splits)

lemma reachable_invariant:
  "reachable images statuses r \<Longrightarrow>
   lastImageIndex r = - 1 \<and> (statuses \<noteq> [] \<longrightarrow> currentStatusIndex r < length statuses)"
proof (induction rule: reachable.induct)
  case start
  show ?case by (simp add: initialRotation_def)
next
  case (cycle r e w r' w')
  show ?case
  proof (cases "images = [] \<or> statuses = []")
    case True
    with cycle.hyps(2) have "r' = r" by (simp add: cycleProfile_empty)
    with cycle.IH show ?thesis by simp
  next
    case False
    then have "r' = r\<lparr>currentStatusIndex := (currentStatusIndex r + 1) mod length statuses\<rparr>"
      using cycleProfile_Some [OF cycle.hyps(2)] by simp
    with cycle.IH False show ?thesis by simp
  qed
qed

lemma cycleProfile_returns:
  assumes "images \<noteq> []" and "statuses \<noteq> []"
    and "lastImageIndex r < 0" and "unit_draw (shd (random w))"
  shows "\<exists>w'. cycleProfile e images statuses r w =
     Some (r\<lparr>currentStatusIndex := (currentStatusIndex r + 1) mod length statuses\<rparr>, w')"
proof -
  have "0 < length images" using assms(1) by simp
  then have "0 \<le> shd (random w) (length images)"
    using unit_drawD [OF assms(4)] by blast
  then have "shd (random w) (length images) \<noteq> lastImageIndex r"
    using assms(3) by linarith
  then have "getRandomIndex images (lastImageIndex r) (random w) =
      Some (shd (random w) (length images), stl (random w))"
    by (simp add: getRandomIndex_single_draw)
  then show ?thesis using assms(1,2)
    by (simp add: cycleProfile_def Let_def split: prod.splits)
qed

text \<open>
  Claim C9. With an empty image list or an empty status list, \<open>cycleProfile\<close> writes its
  warning and does nothing else: no draw, no request, the rotation state as before.
  With both lists non-empty, in every state the timer can reach and with a random
  reading in \<open>[0, 1)\<close>, the cycle returns, the cursor was below the number of statuses
  and is afterwards its successor modulo that number, again below it, and the new state
  is again one the timer can reach.
\<close>

theorem cycleProfile_cursor:
  "(images = [] \<or> statuses = [] \<longrightarrow>
      cycleProfile e images statuses r w =
        Some (r, say (Warn ''No images or statuses available for cycling.'') w))
   \<and> (images \<noteq> [] \<and> statuses \<noteq> [] \<and> reachable images statuses r
       \<and> unit_draw (shd (random w)) \<longrightarrow>
      currentStatusIndex r < length statuses
      \<and> (\<exists>r' w'. cycleProfile e images statuses r w = Some (r', w')
            \<and> currentStatusIndex r' = (currentStatusIndex r + 1) mod length statuses
            \<and> currentStatusIndex r' < length statuses
            \<and> reachable images statuses r'))"
proof -
  have step: "currentStatusIndex r < length statuses
      \<and> (\<exists>r' w'. cycleProfile e images statuses r w = Some (r', w')
            \<and> currentStatusIndex r' = (currentStatusIndex r + 1) mod length statuses
            \<and> currentStatusIndex r' < length statuses
            \<and> reachable images statuses r')"
    if a: "images \<noteq> [] \<and> statuses \<noteq> [] \<and> reachable images statuses r
       \<and> unit_draw (shd (random w))"
  proof -
    from a have inv: "lastImageIndex r = - 1" "currentStatusIndex r < length statuses"
      using reachable_invariant [of images statuses r] by simp_all
    let ?r' = "r\<lparr>currentStatusIndex := (currentStatusIndex r + 1) mod length statuses\<rparr>"
    from a inv obtain w' where c: "cycleProfile e images statuses r w = Some (?r', w')"
      using cycleProfile_returns [of images statuses r w e] by auto
    from a c have "reachable images statuses ?r'" by (blast intro: reachable.cycle)
    moreover from a have "currentStatusIndex ?r' < length statuses" by simp
    ultimately show ?thesis using c inv by auto
  qed
  from cycleProfile_empty [of images statuses e r w] step show ?thesis by blast
qed

theorem cycleProfile_cursor_witness:
  "cycleProfile (exampleEnv TokenRejected NpThrew (SlackBody True)) []
       [\<lparr>status_text = ''X'', status_emoji = '':x:''\<rparr>] initialRotation
       (exampleWorld initialTokenStorage 0)
     = Some (initialRotation,
         say (Warn ''No images or statuses available for cycling.'')
           (exampleWorld initialTokenStorage 0))
   \<and> (\<exists>r' w'. cycleProfile (exampleEnv TokenRejected NpThrew (SlackBody True))
          [''a.png'', ''b.png''] [\<lparr>status_text = ''X'', status_emoji = '':x:''\<rparr>] initialRotation
          (exampleWorld initialTokenStorage 0) = Some (r', w')
        \<and> currentStatusIndex r' = 0)"
proof -
  have r: "reachable [''a.png'', ''b.png''] [\<lparr>status_text = ''X'', status_emoji = '':x:''\<rparr>]
      initialRotation"
    by (rule reachable.start)
  have u: "unit_draw half" by (simp add: unit_draw_def half_def)
  show ?thesis
    using cycleProfile_cursor [of "[]" "[\<lparr>status_text = ''X'', status_emoji = '':x:''\<rparr>]"
        "exampleEnv TokenRejected NpThrew (SlackBody True)" initialRotation
        "exampleWorld initialTokenStorage 0"]
      cycleProfile_cursor [of "[''a.png'', ''b.png'']"
        "[\<lparr>status_text = ''X'', status_emoji = '':x:''\<rparr>]"
        "exampleEnv TokenRejected NpThrew (SlackBody True)" initialRotation
        "exampleWorld initialTokenStorage 0"] r u
    by (simp add: exampleWorld_def initialRotation_def) blast
qed

end
